theory Spec2Isabelle
  imports Main "HOL-Library.AList" "HOL-Library.Sublist"
begin

section \<open>JavaScript strings and values\<close>

text \<open>
  The job board of \<^verbatim>\<open>src/script.js\<close> works on JavaScript strings. They are modelled as
  \<^typ>\<open>string\<close>, one \<^typ>\<open>char\<close> per code unit, for ASCII text: the case conversions below
  change the letters A to Z and a to z and leave every other character as it is, and the
  white space removed by \<^verbatim>\<open>trim\<close> is the ASCII part of JavaScript's white space and line
  terminators (TAB, LF, VT, FF, CR, SP).
\<close>

definition lower_char :: "char \<Rightarrow> char" where
  "lower_char c =
     (let n = (of_char c :: nat) in if 65 \<le> n \<and> n \<le> 90 then char_of (n + 32) else c)"

definition upper_char :: "char \<Rightarrow> char" where
  "upper_char c =
     (let n = (of_char c :: nat) in if 97 \<le> n \<and> n \<le> 122 then char_of (n - 32) else c)"

definition toLowerCase :: "string \<Rightarrow> string" where
  "toLowerCase s = map lower_char s"

definition toUpperCase :: "string \<Rightarrow> string" where
  "toUpperCase s = map upper_char s"

definition is_space :: "char \<Rightarrow> bool" where
  "is_space c \<longleftrightarrow> c \<in> {CHR 0x09, CHR 0x0A, CHR 0x0B, CHR 0x0C, CHR 0x0D, CHR 0x20}"

definition js_trim :: "string \<Rightarrow> string" where
  \<comment> \<open>\<^verbatim>\<open>s.trim()\<close>\<close>
  "js_trim s = rev (dropWhile is_space (rev (dropWhile is_space s)))"

fun js_split :: "char \<Rightarrow> string \<Rightarrow> string list" where
  \<comment> \<open>\<^verbatim>\<open>s.split(c)\<close> for a separator of one character; the result is never empty\<close>
  "js_split c [] = [[]]"
| "js_split c (x # xs) =
     (if x = c then [] # js_split c xs
      else (case js_split c xs of [] \<Rightarrow> [[x]] | w # ws \<Rightarrow> (x # w) # ws))"

definition strip_quotes :: "string \<Rightarrow> string" where
  \<comment> \<open>\<^verbatim>\<open>s.replace(/"/g, '')\<close>\<close>
  "strip_quotes s = filter (\<lambda>c. c \<noteq> CHR 0x22) s"

fun js_includes :: "string \<Rightarrow> string \<Rightarrow> bool" where
  \<comment> \<open>\<^verbatim>\<open>s.includes(t)\<close>\<close>
  "js_includes [] t = (t = [])"
| "js_includes (x # xs) t = (prefix t (x # xs) \<or> js_includes xs t)"

text \<open>
  A value read from a job object is a string or \<^verbatim>\<open>undefined\<close>. A job object is made by
  \<^verbatim>\<open>{}\<close>; its own properties are kept as an association list in insertion order.

  The assignment \<^verbatim>\<open>job[key] = v\<close> replaces the value of a key that is already there and
  adds the key otherwise, with one exception: for the key \<^verbatim>\<open>__proto__\<close> it calls the
  setter that \<^verbatim>\<open>Object.prototype\<close> defines, which ignores a value that is a string or
  \<^verbatim>\<open>undefined\<close> and creates no property.

  The script reads the properties \<^verbatim>\<open>jobTitle\<close>, \<^verbatim>\<open>company\<close>, \<^verbatim>\<open>type\<close>, \<^verbatim>\<open>location\<close>,
  \<^verbatim>\<open>salary\<close>, \<^verbatim>\<open>description\<close>, \<^verbatim>\<open>applyLink\<close> and \<^verbatim>\<open>status\<close> and no other.
  \<^verbatim>\<open>Object.prototype\<close> defines none of them, so reading one that is not an own property
  gives \<^verbatim>\<open>undefined\<close>; \<open>get_prop\<close> is the read of such a name.
\<close>

datatype jsval = Undefined | Str string

type_synonym job = "(string \<times> jsval) list"

definition set_prop :: "string \<Rightarrow> jsval \<Rightarrow> job \<Rightarrow> job" where
  \<comment> \<open>\<^verbatim>\<open>job[key] = v\<close> for a string or \<^verbatim>\<open>undefined\<close> \<open>v\<close>\<close>
  "set_prop key v job = (if key = ''__proto__'' then job else AList.update key v job)"

definition get_prop :: "job \<Rightarrow> string \<Rightarrow> jsval" where
  "get_prop job key = (case map_of job key of None \<Rightarrow> Undefined | Some v \<Rightarrow> v)"

definition truthy :: "jsval \<Rightarrow> bool" where
  "truthy v = (case v of Undefined \<Rightarrow> False | Str s \<Rightarrow> s \<noteq> [])"

definition to_string :: "jsval \<Rightarrow> string" where
  \<comment> \<open>the text a template literal puts in for \<^verbatim>\<open>${v}\<close>\<close>
  "to_string v = (case v of Undefined \<Rightarrow> ''undefined'' | Str s \<Rightarrow> s)"

text \<open>
  Errors are values. A method call on \<^verbatim>\<open>undefined\<close> throws a \<^verbatim>\<open>TypeError\<close>; the
  constructor carries the name of the method that was read. \<open>Error\<close> is any other
  exception, with its message.
\<close>

datatype js_error = TypeError string | Error string

definition method_on :: "string \<Rightarrow> jsval \<Rightarrow> js_error + string" where
  "method_on name v = (case v of Undefined \<Rightarrow> Inl (TypeError name) | Str s \<Rightarrow> Inr s)"


section \<open>The CSV parser\<close>

text \<open>
  \<^verbatim>\<open>
  function parseCSV(csvText) {
      const lines = csvText.trim().split('\n');
      if (lines.length === 0) return [];
      const headers = lines[0].split(',').map(h => h.trim().replace(/"/g, ''));
      const keys = headers.map(header => {
          const words = header.toLowerCase().split(' ');
          if (words.length > 1) {
              return words[0] + words.slice(1).map(w => w.charAt(0).toUpperCase() + w.slice(1)).join('');
          }
          return header.toLowerCase();
      });
      const jobs = [];
      for (let i = 1; i < lines.length; i++) {
          const values = lines[i].split(',').map(v => v.trim().replace(/"/g, ''));
          const job = {};
          keys.forEach((key, index) => { job[key] = values[index]; });
          jobs.push(job);
      }
      return jobs;
  }
  \<close>
\<close>

definition header_key :: "string \<Rightarrow> string" where
  \<comment> \<open>the function mapped over \<^verbatim>\<open>headers\<close>\<close>
  "header_key header =
     (let words = js_split CHR '' '' (toLowerCase header)
      in if length words > 1
         then words ! 0 @ concat (map (\<lambda>w. toUpperCase (take 1 w) @ drop 1 w) (drop 1 words))
         else toLowerCase header)"

definition split_row :: "string \<Rightarrow> string list" where
  \<comment> \<open>\<^verbatim>\<open>line.split(',').map(v => v.trim().replace(/"/g, ''))\<close>\<close>
  "split_row line = map (\<lambda>v. strip_quotes (js_trim v)) (js_split CHR '','' line)"

definition value_at :: "string list \<Rightarrow> nat \<Rightarrow> jsval" where
  \<comment> \<open>\<^verbatim>\<open>values[index]\<close>: \<^verbatim>\<open>undefined\<close> beyond the end of the array\<close>
  "value_at values index = (if index < length values then Str (values ! index) else Undefined)"

fun assign_keys :: "string list \<Rightarrow> nat \<Rightarrow> string list \<Rightarrow> job \<Rightarrow> job" where
  \<comment> \<open>\<^verbatim>\<open>keys.forEach((key, index) => { job[key] = values[index]; })\<close>, from \<open>index\<close> on\<close>
  "assign_keys [] index values job = job"
| "assign_keys (key # keys) index values job =
     assign_keys keys (Suc index) values (set_prop key (value_at values index) job)"

definition row_job :: "string list \<Rightarrow> string \<Rightarrow> job" where
  \<comment> \<open>the body of the \<^verbatim>\<open>for\<close> loop: the job object of one line\<close>
  "row_job keys line = assign_keys keys 0 (split_row line) []"

function parse_rows :: "string list \<Rightarrow> string list \<Rightarrow> nat \<Rightarrow> job list \<Rightarrow> job list" where
  \<comment> \<open>the \<^verbatim>\<open>for\<close> loop, from \<open>i\<close> on, with the jobs pushed so far\<close>
  "parse_rows keys lines i jobs =
     (if i < length lines then parse_rows keys lines (Suc i) (jobs @ [row_job keys (lines ! i)])
      else jobs)"
  by pat_completeness auto
termination
  by (relation "measure (\<lambda>(keys, lines, i, jobs). length lines - i)") auto

declare parse_rows.simps [simp del]

definition csv_lines :: "string \<Rightarrow> string list" where
  "csv_lines csvText = js_split CHR 0x0A (js_trim csvText)"

definition csv_keys :: "string list \<Rightarrow> string list" where
  \<comment> \<open>\<^verbatim>\<open>keys\<close>, from \<^verbatim>\<open>lines\<close>\<close>
  "csv_keys lines = map header_key (split_row (lines ! 0))"

definition parseCSV :: "string \<Rightarrow> job list" where
  "parseCSV csvText =
     (let lines = csv_lines csvText
      in if length lines = 0 then []
         else parse_rows (csv_keys lines) lines 1 [])"


section \<open>The card renderer\<close>

text \<open>
  The script declares \<^verbatim>\<open>createJobCardHTML\<close> twice. Both are function declarations of
  one script, so the later one (the one that reads the \<^verbatim>\<open>status\<close> column) replaces the
  earlier one before any code runs; it is the one modelled here.
  \<^verbatim>\<open>
  const icon = job.type.toLowerCase().includes('wfh') ? 'fas fa-home' :
               job.type.toLowerCase().includes('data entry') ? 'fas fa-keyboard' :
               job.type.toLowerCase().includes('telecalling') ? 'fas fa-phone-alt' :
               'fas fa-briefcase';
  const jobStatus = job.status ? job.status.trim() : 'Active';
  let badgeClass = '';
  let isApplyActive = true;
  if (jobStatus === 'Expired' || jobStatus === 'Filled') {
      badgeClass = 'status-closed';
      isApplyActive = false;
  } else {
      badgeClass = 'status-active';
  }
  const applyButtonHTML = isApplyActive
      ? `<a href="${job.applyLink}" target="_blank" class="apply-btn">Apply Now ...</a>`
      : `<button class="apply-btn disabled">Application ${jobStatus}</button>`;
  \<close>
\<close>

definition icon_of :: "job \<Rightarrow> js_error + string" where
  "icon_of job =
     (case method_on ''toLowerCase'' (get_prop job ''type'') of
        Inl e \<Rightarrow> Inl e
      | Inr t \<Rightarrow>
          Inr (if js_includes (toLowerCase t) ''wfh'' then ''fas fa-home''
               else if js_includes (toLowerCase t) ''data entry'' then ''fas fa-keyboard''
               else if js_includes (toLowerCase t) ''telecalling'' then ''fas fa-phone-alt''
               else ''fas fa-briefcase''))"

definition jobStatus_of :: "job \<Rightarrow> string" where
  "jobStatus_of job =
     (if truthy (get_prop job ''status'') then js_trim (to_string (get_prop job ''status''))
      else ''Active'')"

definition isApplyActive_of :: "string \<Rightarrow> bool" where
  "isApplyActive_of jobStatus = (\<not> (jobStatus = ''Expired'' \<or> jobStatus = ''Filled''))"

definition badgeClass_of :: "string \<Rightarrow> string" where
  "badgeClass_of jobStatus =
     (if jobStatus = ''Expired'' \<or> jobStatus = ''Filled'' then ''status-closed''
      else ''status-active'')"

definition applyButtonHTML :: "job \<Rightarrow> string \<Rightarrow> string" where
  \<open>applyButtonHTML job jobStatus =
     (if isApplyActive_of jobStatus
      then ''<a href="'' @
           to_string (get_prop job ''applyLink'') @
           ''" target="_blank" class="apply-btn">Apply Now <i class="fas fa-arrow-right"></i></a>''
      else ''<button class="apply-btn disabled">Application '' @
           jobStatus @
           ''</button>'')\<close>

definition salary_text :: "job \<Rightarrow> string" where
  \<comment> \<open>\<^verbatim>\<open>job.salary || 'Competitive'\<close>\<close>
  "salary_text job =
     (if truthy (get_prop job ''salary'') then to_string (get_prop job ''salary'')
      else ''Competitive'')"

definition createJobCardHTML :: "job \<Rightarrow> js_error + string" where
  \<open>createJobCardHTML job =
     (case icon_of job of
        Inl e \<Rightarrow> Inl e
      | Inr icon \<Rightarrow>
         (let jobStatus = jobStatus_of job in
          case method_on ''substring'' (get_prop job ''description'') of
            Inl e \<Rightarrow> Inl e
          | Inr description \<Rightarrow>
             Inr (''\<newline>'' @
       ''        <div class="job-card">\<newline>'' @
       ''            \<newline>'' @
       ''            <span class="job-status-tag '' @
       badgeClass_of jobStatus @
       ''">'' @
       toUpperCase jobStatus @
       ''</span>\<newline>'' @
       ''            \<newline>'' @
       ''            <h3 title="'' @
       to_string (get_prop job ''jobTitle'') @
       ''">'' @
       to_string (get_prop job ''jobTitle'') @
       ''</h3>\<newline>'' @
       ''            <span class="company">'' @
       to_string (get_prop job ''company'') @
       ''</span>\<newline>'' @
       ''            <div class="meta">\<newline>'' @
       ''                <span><i class="'' @
       icon @
       ''"></i> '' @
       to_string (get_prop job ''type'') @
       ''</span>\<newline>'' @
       ''                <span><i class="fas fa-map-marker-alt"></i> '' @
       to_string (get_prop job ''location'') @
       ''</span>\<newline>'' @
       ''                <span><i class="fas fa-money-bill-wave"></i> '' @
       salary_text job @
       ''</span>\<newline>'' @
       ''            </div>\<newline>'' @
       ''            <p>'' @
       take 100 description @
       ''...</p>\<newline>'' @
       ''            \<newline>'' @
       ''            '' @
       applyButtonHTML job jobStatus @
       ''\<newline>'' @
       ''\<newline>'' @
       ''        </div>\<newline>'' @
       ''    '')))\<close>


text \<open>
  A name for one part of the template above: what stands between the status badge and the
  paragraph of the description, that is the title, the company and the line of type,
  location and salary. It reads neither \<^verbatim>\<open>status\<close> nor \<^verbatim>\<open>applyLink\<close>.
\<close>

definition card_details :: "job \<Rightarrow> string \<Rightarrow> string" where
  \<open>card_details job icon =
       ''\<newline>'' @
       ''            \<newline>'' @
       ''            <h3 title="'' @
       to_string (get_prop job ''jobTitle'') @
       ''">'' @
       to_string (get_prop job ''jobTitle'') @
       ''</h3>\<newline>'' @
       ''            <span class="company">'' @
       to_string (get_prop job ''company'') @
       ''</span>\<newline>'' @
       ''            <div class="meta">\<newline>'' @
       ''                <span><i class="'' @
       icon @
       ''"></i> '' @
       to_string (get_prop job ''type'') @
       ''</span>\<newline>'' @
       ''                <span><i class="fas fa-map-marker-alt"></i> '' @
       to_string (get_prop job ''location'') @
       ''</span>\<newline>'' @
       ''                <span><i class="fas fa-money-bill-wave"></i> '' @
       salary_text job @
       ''</span>\<newline>'' @
       ''            </div>\<newline>'' @
       ''            ''\<close>


section \<open>The board: state, rendering, filter and search\<close>

text \<open>
  The globals \<^verbatim>\<open>allJobs\<close> and \<^verbatim>\<open>currentFilter\<close> and the parts of the page the script
  reads and writes are the fields of one record. A function that changes them returns the
  new state together with the exception it threw, if any: a throw keeps the changes made
  before it.
\<close>

record board =
  allJobs :: "job list"
  currentFilter :: string
  jobSearchInput_value :: string
  jobCardsContainer_innerHTML :: string
  filterCategoriesDiv_innerHTML :: string
  noResultsDiv_display :: string

fun map_throw :: "('a \<Rightarrow> js_error + 'b) \<Rightarrow> 'a list \<Rightarrow> js_error + 'b list" where
  \<comment> \<open>\<^verbatim>\<open>xs.map(f)\<close> for an \<open>f\<close> that may throw: the first throw ends the call\<close>
  "map_throw f [] = Inr []"
| "map_throw f (x # xs) =
     (case f x of
        Inl e \<Rightarrow> Inl e
      | Inr y \<Rightarrow> (case map_throw f xs of Inl e \<Rightarrow> Inl e | Inr ys \<Rightarrow> Inr (y # ys)))"

fun filter_throw :: "('a \<Rightarrow> js_error + bool) \<Rightarrow> 'a list \<Rightarrow> js_error + 'a list" where
  \<comment> \<open>\<^verbatim>\<open>xs.filter(p)\<close> for a \<open>p\<close> that may throw\<close>
  "filter_throw p [] = Inr []"
| "filter_throw p (x # xs) =
     (case p x of
        Inl e \<Rightarrow> Inl e
      | Inr b \<Rightarrow>
         (case filter_throw p xs of
            Inl e \<Rightarrow> Inl e
          | Inr ys \<Rightarrow> Inr (if b then x # ys else ys)))"

definition renderJobs :: "job list \<Rightarrow> board \<Rightarrow> js_error option \<times> board" where
  \<comment> \<open>\<^verbatim>\<open>
    jobCardsContainer.innerHTML = '';
    if (jobsToRender.length === 0) { noResultsDiv.style.display = 'block'; }
    else { noResultsDiv.style.display = 'none';
           const html = jobsToRender.map(createJobCardHTML).join('');
           jobCardsContainer.innerHTML = html; }\<close>\<close>
  "renderJobs jobsToRender st =
     (let st1 = st\<lparr>jobCardsContainer_innerHTML := []\<rparr>
      in if length jobsToRender = 0 then (None, st1\<lparr>noResultsDiv_display := ''block''\<rparr>)
         else (let st2 = st1\<lparr>noResultsDiv_display := ''none''\<rparr>
               in case map_throw createJobCardHTML jobsToRender of
                    Inl e \<Rightarrow> (Some e, st2)
                  | Inr cards \<Rightarrow> (None, st2\<lparr>jobCardsContainer_innerHTML := concat cards\<rparr>)))"

definition unique :: "string list \<Rightarrow> string list" where
  \<comment> \<open>\<^verbatim>\<open>[...new Set(xs)]\<close>: the first occurrence of each value, in order\<close>
  "unique xs = fold (\<lambda>x seen. if x \<in> set seen then seen else seen @ [x]) xs []"

definition filter_button :: "string \<Rightarrow> string" where
  \<open>filter_button type =
       ''\<newline>'' @
       ''        <button class="filter-btn '' @
       (if type = ''All'' then ''active'' else []) @
       ''" data-type="'' @
       type @
       ''">\<newline>'' @
       ''            '' @
       type @
       ''\<newline>'' @
       ''        </button>\<newline>'' @
       ''    ''\<close>

definition setupFilters :: "board \<Rightarrow> js_error option \<times> board" where
  \<comment> \<open>\<^verbatim>\<open>
    const jobTypes = [...new Set(allJobs.map(job => job.type.trim()))];
    const filters = ['All', ...jobTypes];
    filterCategoriesDiv.innerHTML = filters.map(type => `...`).join('');\<close>
    (the click listener it attaches sets \<^verbatim>\<open>currentFilter\<close> and calls
    \<^verbatim>\<open>filterAndSearchJobs\<close>)\<close>
  "setupFilters st =
     (case map_throw (\<lambda>job. map_sum id js_trim (method_on ''trim'' (get_prop job ''type'')))
             (allJobs st) of
        Inl e \<Rightarrow> (Some e, st)
      | Inr types \<Rightarrow>
         (let jobTypes = unique types; filters = ''All'' # jobTypes
          in (None, st\<lparr>filterCategoriesDiv_innerHTML := concat (map filter_button filters)\<rparr>)))"

text \<open>
  \<^verbatim>\<open>
  function filterAndSearchJobs() {
      let filteredJobs = [...allJobs];
      const searchTerm = jobSearchInput.value.toLowerCase().trim();
      if (currentFilter !== 'All') {
          filteredJobs = filteredJobs.filter(job => job.type.trim() === currentFilter);
      }
      if (searchTerm) {
          filteredJobs = filteredJobs.filter(job =>
              job.jobTitle.toLowerCase().includes(searchTerm) ||
              job.company.toLowerCase().includes(searchTerm) ||
              job.description.toLowerCase().includes(searchTerm) ||
              job.location.toLowerCase().includes(searchTerm) ||
              job.type.toLowerCase().includes(searchTerm));
      }
      renderJobs(filteredJobs);
  }
  \<close>
\<close>

definition category_match :: "string \<Rightarrow> job \<Rightarrow> js_error + bool" where
  \<comment> \<open>\<^verbatim>\<open>job.type.trim() === currentFilter\<close>\<close>
  "category_match category job =
     map_sum id (\<lambda>t. js_trim t = category) (method_on ''trim'' (get_prop job ''type''))"

definition category_stage :: "string \<Rightarrow> job list \<Rightarrow> js_error + job list" where
  "category_stage category jobs =
     (if category \<noteq> ''All'' then filter_throw (category_match category) jobs else Inr jobs)"

definition field_includes :: "string \<Rightarrow> job \<Rightarrow> string \<Rightarrow> js_error + bool" where
  \<comment> \<open>\<^verbatim>\<open>job.field.toLowerCase().includes(searchTerm)\<close>\<close>
  "field_includes searchTerm job field =
     map_sum id (\<lambda>s. js_includes (toLowerCase s) searchTerm)
       (method_on ''toLowerCase'' (get_prop job field))"

definition or_else :: "js_error + bool \<Rightarrow> js_error + bool \<Rightarrow> js_error + bool" where
  \<comment> \<open>\<^verbatim>\<open>a || b\<close>: \<open>b\<close> is evaluated only when \<open>a\<close> is false\<close>
  "or_else a b = (case a of Inl e \<Rightarrow> Inl e | Inr x \<Rightarrow> if x then Inr True else b)"

definition search_match :: "string \<Rightarrow> job \<Rightarrow> js_error + bool" where
  "search_match searchTerm job =
     or_else (or_else (or_else (or_else
       (field_includes searchTerm job ''jobTitle'')
       (field_includes searchTerm job ''company''))
       (field_includes searchTerm job ''description''))
       (field_includes searchTerm job ''location''))
       (field_includes searchTerm job ''type'')"

definition search_stage :: "string \<Rightarrow> job list \<Rightarrow> js_error + job list" where
  "search_stage searchTerm jobs =
     (if searchTerm \<noteq> [] then filter_throw (search_match searchTerm) jobs else Inr jobs)"

definition filteredJobs :: "board \<Rightarrow> js_error + job list" where
  \<comment> \<open>the value of \<^verbatim>\<open>filteredJobs\<close> that is handed to \<^verbatim>\<open>renderJobs\<close>\<close>
  "filteredJobs st =
     (let searchTerm = js_trim (toLowerCase (jobSearchInput_value st))
      in case category_stage (currentFilter st) (allJobs st) of
           Inl e \<Rightarrow> Inl e
         | Inr jobs \<Rightarrow> search_stage searchTerm jobs)"

definition filterAndSearchJobs :: "board \<Rightarrow> js_error option \<times> board" where
  "filterAndSearchJobs st =
     (case filteredJobs st of Inl e \<Rightarrow> (Some e, st) | Inr jobs \<Rightarrow> renderJobs jobs st)"


section \<open>The controller\<close>

text \<open>
  \<^verbatim>\<open>
  async function initJobBoard() {
      try {
          const response = await fetch(GOOGLE_SHEET_CSV_URL);
          if (!response.ok) { throw new Error(`HTTP error! status: ${response.status}`); }
          const csvText = await response.text();
          allJobs = parseCSV(csvText);
          allJobs = allJobs.filter(job => job.jobTitle && job.jobTitle.toLowerCase() !== 'jobtitle');
          if (allJobs.length === 0) { throw new Error("No valid job data found after parsing."); }
          setupFilters();
          renderJobs(allJobs);
      } catch (error) {
          console.error("Error fetching or processing job data:", error);
          jobCardsContainer.innerHTML = `... <p>Error details: ${error.message}</p> ...`;
      }
  }
  \<close>
  What the network answers is an input of the model: the request is rejected, or there is a
  response with its \<^verbatim>\<open>ok\<close> flag, its status and its body (which may fail to be read).
  The wording of the message of a \<^verbatim>\<open>TypeError\<close> is the engine's, and a parameter here.
\<close>

datatype fetch_result = Rejected js_error | Response bool nat "js_error + string"

fun decimal :: "nat \<Rightarrow> string" where
  \<comment> \<open>a status number in a template literal\<close>
  "decimal n =
     (if n < 10 then [char_of (48 + n)] else decimal (n div 10) @ [char_of (48 + n mod 10)])"

declare decimal.simps [simp del]

definition valid_job :: "job \<Rightarrow> bool" where
  \<comment> \<open>\<^verbatim>\<open>job.jobTitle && job.jobTitle.toLowerCase() !== 'jobtitle'\<close>\<close>
  "valid_job job =
     (truthy (get_prop job ''jobTitle'') \<and>
      toLowerCase (to_string (get_prop job ''jobTitle'')) \<noteq> ''jobtitle'')"

definition init_try :: "fetch_result \<Rightarrow> board \<Rightarrow> js_error option \<times> board" where
  \<comment> \<open>the \<^verbatim>\<open>try\<close> block\<close>
  "init_try r st =
     (case r of
        Rejected e \<Rightarrow> (Some e, st)
      | Response ok status body \<Rightarrow>
         if \<not> ok then (Some (Error (''HTTP error! status: '' @ decimal status)), st)
         else (case body of
                 Inl e \<Rightarrow> (Some e, st)
               | Inr csvText \<Rightarrow>
                  (let st1 = st\<lparr>allJobs := parseCSV csvText\<rparr>;
                       st2 = st1\<lparr>allJobs := filter valid_job (allJobs st1)\<rparr>
                   in if length (allJobs st2) = 0
                      then (Some (Error ''No valid job data found after parsing.''), st2)
                      else (case setupFilters st2 of
                              (Some e, st3) \<Rightarrow> (Some e, st3)
                            | (None, st3) \<Rightarrow> renderJobs (allJobs st3) st3))))"

definition error_message :: "(string \<Rightarrow> string) \<Rightarrow> js_error \<Rightarrow> string" where
  "error_message engine e = (case e of Error m \<Rightarrow> m | TypeError name \<Rightarrow> engine name)"

definition error_block :: "string \<Rightarrow> string" where
  \<open>error_block message =
       ''\<newline>'' @
       ''            <div style="grid-column: 1 / -1; text-align: center; color: red; padding: 50px; background: #ffebeb; border-radius: 8px;">\<newline>'' @
       ''                <h2>Data Loading Error!</h2>\<newline>'' @
       ''                <p>Please check the <code>GOOGLE_SHEET_CSV_URL</code> in the script and ensure the Google Sheet is correctly published to the web as a CSV.</p>\<newline>'' @
       ''                <p>Error details: '' @
       message @
       ''</p>\<newline>'' @
       ''            </div>\<newline>'' @
       ''        ''\<close>

definition initJobBoard :: "(string \<Rightarrow> string) \<Rightarrow> fetch_result \<Rightarrow> board \<Rightarrow> board" where
  "initJobBoard engine r st =
     (case init_try r st of
        (None, st') \<Rightarrow> st'
      | (Some e, st') \<Rightarrow>
          st'\<lparr>jobCardsContainer_innerHTML := error_block (error_message engine e)\<rparr>)"


section \<open>The specification's wording\<close>




definition spec_parseCSV :: "string \<Rightarrow> job list" where
  "spec_parseCSV csvText =
     (let lines = js_split CHR 0x0A csvText
      in map (row_job (csv_keys lines)) (tl lines))"

definition search_fields :: "string list" where
  "search_fields = [''jobTitle'', ''company'', ''description'', ''location'', ''type'']"

definition spec_search_match :: "string \<Rightarrow> job \<Rightarrow> bool" where
  "spec_search_match searchText job =
     (\<exists>field \<in> set search_fields.
        js_includes (toLowerCase (to_string (get_prop job field))) (toLowerCase searchText))"

definition spec_category_match :: "string \<Rightarrow> job \<Rightarrow> bool" where
  "spec_category_match category job = (js_trim (to_string (get_prop job ''type'')) = category)"

definition spec_filter :: "string \<Rightarrow> string \<Rightarrow> job list \<Rightarrow> job list" where
  "spec_filter category searchText jobs =
     (let byCategory = (if category \<noteq> ''All'' then filter (spec_category_match category) jobs
                        else jobs)
      in if searchText \<noteq> [] then filter (spec_search_match searchText) byCategory
         else byCategory)"

definition spec_invalid :: "job \<Rightarrow> bool" where
  "spec_invalid job =
     (case get_prop job ''jobTitle'' of
        Undefined \<Rightarrow> True
      | Str s \<Rightarrow> s = [] \<or> toLowerCase s = ''jobtitle'')"

text \<open>A record and a board holding it, for concrete evaluation.\<close>

definition sample_job :: job where
  "sample_job =
     [(''jobTitle'', Str ''Clerk''), (''company'', Str ''Acme''),
      (''description'', Str ''Typing''), (''location'', Str ''Pilibhit''),
      (''type'', Str ''Data Entry''), (''applyLink'', Str ''https://example.org/apply'')]"

definition sample_board :: board where
  "sample_board =
     \<lparr>allJobs = [sample_job], currentFilter = ''All'', jobSearchInput_value = ''acme '',
      jobCardsContainer_innerHTML = [], filterCategoriesDiv_innerHTML = [],
      noResultsDiv_display = []\<rparr>"


section \<open>Facts about strings\<close>

lemma char_eq_char_of: "c = char_of n \<longleftrightarrow> take_bit 8 n = of_char c"
  by (metis char_of_eq_iff)

lemmas eval_defs =
  char_eq_char_of lower_char_def upper_char_def toLowerCase_def toUpperCase_def is_space_def js_trim_def
  strip_quotes_def set_prop_def get_prop_def header_key_def split_row_def value_at_def row_job_def
  csv_lines_def csv_keys_def parseCSV_def char_of_eq_iff parse_rows.simps

lemma lower_char_eq_iff:
  assumes "\<not> (97 \<le> (of_char d :: nat) \<and> (of_char d :: nat) \<le> 122)"
  shows "lower_char x = d \<longleftrightarrow> x = d \<and> \<not> (65 \<le> (of_char d :: nat) \<and> (of_char d :: nat) \<le> 90)"
proof (cases "65 \<le> (of_char x :: nat) \<and> (of_char x :: nat) \<le> 90")
  case True
  then have "take_bit 8 (of_char x + 32 :: nat) = of_char x + 32"
    by (simp add: take_bit_nat_eq_self)
  with True assms show ?thesis
    by (auto simp: lower_char_def Let_def char_of_eq_iff)
next
  case False
  then show ?thesis
    by (auto simp: lower_char_def Let_def)
qed


lemma is_space_lower_char: "is_space (lower_char x) \<longleftrightarrow> is_space x"
  by (simp add: is_space_def lower_char_eq_iff)

lemma toLowerCase_trim: "js_trim (toLowerCase s) = toLowerCase (js_trim s)"
proof -
  have "is_space \<circ> lower_char = is_space"
    by (rule ext) (simp add: is_space_lower_char)
  then show ?thesis
    by (simp add: js_trim_def toLowerCase_def dropWhile_map rev_map)
qed

lemma js_trim_spaces: "(\<And>c. c \<in> set s \<Longrightarrow> is_space c) \<Longrightarrow> js_trim s = []"
proof -
  assume "\<And>c. c \<in> set s \<Longrightarrow> is_space c"
  then have "dropWhile is_space s = []"
    by simp
  then show ?thesis
    unfolding js_trim_def by (simp only: rev.simps dropWhile.simps)
qed

lemma js_split_nonempty: "js_split c s \<noteq> []"
  by (induction s) (auto split: list.splits)





section \<open>The parser: lines, keys and records\<close>

lemma parse_rows_eq: "parse_rows keys lines i jobs = jobs @ map (row_job keys) (drop i lines)"
proof (induction keys lines i jobs rule: parse_rows.induct)
  case (1 keys lines i jobs)
  show ?case
  proof (cases "i < length lines")
    case True
    then have "drop i lines = lines ! i # drop (Suc i) lines"
      by (simp add: Cons_nth_drop_Suc)
    with True 1 show ?thesis
      by (subst parse_rows.simps) simp
  next
    case False
    then show ?thesis by (subst parse_rows.simps) simp
  qed
qed

lemma parseCSV_eq:
  "parseCSV csvText = map (row_job (csv_keys (csv_lines csvText))) (tl (csv_lines csvText))"
  by (simp add: parseCSV_def Let_def parse_rows_eq drop_Suc)





















text \<open>
  Claim C7, as stated, says that the input itself is split on line breaks. The parser trims
  the input first, so a leading blank line is not the header line: on the input below the
  parser gives one record with the key "h", and splitting the untrimmed input gives the
  empty header and two records.
\<close>
theorem parseCSV_untrimmed_counterexample:
  "parseCSV ''\<newline>h\<newline>v'' = [[(''h'', Str ''v'')]] \<and>
   spec_parseCSV ''\<newline>h\<newline>v'' = [[([], Str ''h'')], [([], Str ''v'')]] \<and>
   parseCSV ''\<newline>h\<newline>v'' \<noteq> spec_parseCSV ''\<newline>h\<newline>v''"
  by (simp add: spec_parseCSV_def eval_defs)

text \<open>
  Claim C7, amended. The empty input gives no record. In general the parser trims the
  input, splits the trimmed input on line breaks, takes the first line as the header and
  gives one record per remaining line.
\<close>
theorem parseCSV_lines:
  "parseCSV [] = [] \<and>
   (let lines = js_split CHR 0x0A (js_trim csvText)
    in parseCSV csvText = map (row_job (map header_key (split_row (hd lines)))) (tl lines) \<and>
       length (parseCSV csvText) = length lines - 1)"
proof -
  have "parseCSV [] = []"
    by (simp add: parseCSV_eq csv_lines_def js_trim_def)
  moreover have "lines ! 0 = hd lines" if "lines = js_split CHR 0x0A (js_trim csvText)" for lines
    using that by (simp add: hd_conv_nth js_split_nonempty)
  ultimately show ?thesis
    by (simp add: parseCSV_eq csv_lines_def csv_keys_def Let_def)
qed





section \<open>Filter and search\<close>

lemma filter_throw_total:
  "(\<And>x. x \<in> set xs \<Longrightarrow> p x = Inr (q x)) \<Longrightarrow> filter_throw p xs = Inr (filter q xs)"
  by (induction xs) simp_all

lemma filter_throw_result:
  "filter_throw p xs = Inr ys \<Longrightarrow> (\<And>x b. x \<in> set xs \<Longrightarrow> p x = Inr b \<Longrightarrow> b = q x) \<Longrightarrow>
   ys = filter q xs"
proof (induction xs arbitrary: ys)
  case Nil
  then show ?case by simp
next
  case (Cons x xs)
  from Cons.prems(1) obtain b zs where b: "p x = Inr b" and zs: "filter_throw p xs = Inr zs"
    and ys: "ys = (if b then x # zs else zs)"
    by (auto split: sum.splits)
  from b Cons.prems(2) have "b = q x"
    by simp
  moreover from zs Cons.prems(2) have "zs = filter q xs"
    by (intro Cons.IH) simp_all
  ultimately show ?case
    using ys by simp
qed

lemma category_match_result:
  "category_match category job = Inr b \<Longrightarrow> b = spec_category_match category job"
  by (cases "get_prop job ''type''")
    (auto simp: category_match_def spec_category_match_def method_on_def to_string_def)

lemma field_includes_result:
  "field_includes searchTerm job field = Inr b \<Longrightarrow>
   b = js_includes (toLowerCase (to_string (get_prop job field))) searchTerm"
  by (cases "get_prop job field") (auto simp: field_includes_def method_on_def to_string_def)

lemma or_else_result:
  "or_else a c = Inr b \<Longrightarrow>
   a = Inr True \<and> b \<or> a = Inr False \<and> c = Inr b"
  by (cases a) (auto simp: or_else_def split: if_splits)

lemma category_match_total:
  "get_prop job ''type'' \<noteq> Undefined \<Longrightarrow>
   category_match category job = Inr (spec_category_match category job)"
  by (cases "get_prop job ''type''")
    (simp_all add: category_match_def spec_category_match_def method_on_def to_string_def)

lemma category_stage_total:
  assumes "\<And>job. job \<in> set jobs \<Longrightarrow> get_prop job ''type'' \<noteq> Undefined"
  shows "category_stage category jobs =
    Inr (if category \<noteq> ''All'' then filter (spec_category_match category) jobs else jobs)"
  using assms by (simp add: category_stage_def filter_throw_total category_match_total)

lemma field_includes_total:
  "get_prop job field \<noteq> Undefined \<Longrightarrow>
   field_includes searchTerm job field =
     Inr (js_includes (toLowerCase (to_string (get_prop job field))) searchTerm)"
  by (cases "get_prop job field") (simp_all add: field_includes_def method_on_def to_string_def)

lemma search_match_total:
  assumes "\<And>field. field \<in> set search_fields \<Longrightarrow> get_prop job field \<noteq> Undefined"
  shows "search_match (toLowerCase searchText) job = Inr (spec_search_match searchText job)"
proof -
  have "get_prop job ''jobTitle'' \<noteq> Undefined" "get_prop job ''company'' \<noteq> Undefined"
    "get_prop job ''description'' \<noteq> Undefined" "get_prop job ''location'' \<noteq> Undefined"
    "get_prop job ''type'' \<noteq> Undefined"
    using assms by (simp_all add: search_fields_def)
  then show ?thesis
    by (simp add: search_match_def field_includes_total or_else_def spec_search_match_def
        search_fields_def)
qed

text \<open>
  Claim C3. For a category other than "All", over records that all have a \<^verbatim>\<open>type\<close>, the
  category stage keeps exactly the records whose trimmed \<^verbatim>\<open>type\<close> is equal to the
  category, as a whole string and with case: for the category "WFH" the types "WFH" and
  "WFH " are kept, "wfh " and "WFH Job" are not. (A record without a \<^verbatim>\<open>type\<close> makes
  the stage throw.)
\<close>
theorem category_stage_exact:
  "(category \<noteq> ''All'' \<and> (\<forall>job \<in> set jobs. get_prop job ''type'' \<noteq> Undefined) \<longrightarrow>
      category_stage category jobs =
        Inr (filter (\<lambda>job. js_trim (to_string (get_prop job ''type'')) = category) jobs)) \<and>
   category_stage ''WFH''
     [[(''type'', Str ''WFH'')], [(''type'', Str ''wfh '')], [(''type'', Str ''WFH '')],
      [(''type'', Str ''WFH Job'')]] =
     Inr [[(''type'', Str ''WFH'')], [(''type'', Str ''WFH '')]]"
proof -
  have "category_stage ''WFH''
     [[(''type'', Str ''WFH'')], [(''type'', Str ''wfh '')], [(''type'', Str ''WFH '')],
      [(''type'', Str ''WFH Job'')]] =
     Inr [[(''type'', Str ''WFH'')], [(''type'', Str ''WFH '')]]"
    by (simp add: category_stage_def category_match_def method_on_def get_prop_def js_trim_def
        is_space_def)
  moreover have "spec_category_match category =
      (\<lambda>job. js_trim (to_string (get_prop job ''type'')) = category)"
    by (rule ext) (simp add: spec_category_match_def)
  ultimately show ?thesis
    by (simp add: category_stage_total)
qed

theorem category_stage_exact_witness:
  "''Data Entry'' \<noteq> ''All'' \<and>
   list_all (\<lambda>job. get_prop job ''type'' \<noteq> Undefined)
     [[(''type'', Str '' Data Entry'')], [(''type'', Str ''Data'')]] \<and>
   category_stage ''Data Entry'' [[(''type'', Str '' Data Entry'')], [(''type'', Str ''Data'')]] =
     Inr [[(''type'', Str '' Data Entry'')]]"
proof -
  let ?jobs = "[[(''type'', Str '' Data Entry'')], [(''type'', Str ''Data'')]]"
  have h: "''Data Entry'' \<noteq> ''All'' \<and> (\<forall>job \<in> set ?jobs. get_prop job ''type'' \<noteq> Undefined)"
    by (simp add: get_prop_def)
  with category_stage_exact [of "''Data Entry''" ?jobs]
  have "category_stage ''Data Entry'' ?jobs =
      Inr (filter (\<lambda>job. js_trim (to_string (get_prop job ''type'')) = ''Data Entry'') ?jobs)"
    by blast
  then show ?thesis
    using h by (simp add: get_prop_def to_string_def js_trim_def is_space_def list_all_iff)
qed

lemma search_match_result:
  assumes "search_match (toLowerCase searchText) job = Inr b"
  shows "b = spec_search_match searchText job"
proof -
  let ?f = "field_includes (toLowerCase searchText) job"
  let ?g = "\<lambda>field. js_includes (toLowerCase (to_string (get_prop job field)))
    (toLowerCase searchText)"
  have spec: "spec_search_match searchText job \<longleftrightarrow>
      ?g ''jobTitle'' \<or> ?g ''company'' \<or> ?g ''description'' \<or> ?g ''location'' \<or> ?g ''type''"
    by (simp add: spec_search_match_def search_fields_def)
  from assms have "or_else (or_else (or_else (or_else (?f ''jobTitle'') (?f ''company''))
      (?f ''description'')) (?f ''location'')) (?f ''type'') = Inr b"
    by (simp add: search_match_def)
  then show ?thesis
    unfolding spec
    by (auto dest!: or_else_result dest: field_includes_result)
qed

text \<open>
  Claim C4, as stated, tests the lower-cased search text itself, on every record set. The
  filter trims the search text first: for the search text "acme " (with a space at the end)
  and a record of the company "Acme" the filter keeps the record, while "acme " is a
  substring of none of its fields. And the filter reads the five fields of a record one
  after the other until one matches: on the records of a sheet with the columns "Job Title"
  and "Type" only, the search for "x" throws when it reads \<^verbatim>\<open>company\<close>.
\<close>
theorem search_untrimmed_counterexample:
  "jobSearchInput_value sample_board = ''acme '' \<and>
   filteredJobs sample_board = Inr [sample_job] \<and>
   spec_filter (currentFilter sample_board) (jobSearchInput_value sample_board)
     (allJobs sample_board) = [] \<and>
   filteredJobs sample_board \<noteq>
     Inr (spec_filter (currentFilter sample_board) (jobSearchInput_value sample_board)
       (allJobs sample_board)) \<and>
   filteredJobs
     (sample_board\<lparr>allJobs := parseCSV ''Job Title,Type\<newline>Dev,WFH'',
        jobSearchInput_value := ''x''\<rparr>) = Inl (TypeError ''toLowerCase'')"
  by (simp add: sample_board_def sample_job_def filteredJobs_def category_stage_def search_stage_def
      search_match_def field_includes_def or_else_def method_on_def spec_filter_def
      spec_search_match_def search_fields_def to_string_def eval_defs)

lemma filteredJobs_total:
  assumes "\<forall>job \<in> set (allJobs st). \<forall>field \<in> set search_fields. get_prop job field \<noteq> Undefined"
  shows "filteredJobs st =
           Inr (spec_filter (currentFilter st) (js_trim (jobSearchInput_value st)) (allJobs st))"
proof -
  let ?text = "js_trim (jobSearchInput_value st)"
  let ?byCategory = "if currentFilter st \<noteq> ''All''
    then filter (spec_category_match (currentFilter st)) (allJobs st) else allJobs st"
  have type: "get_prop job ''type'' \<noteq> Undefined" if "job \<in> set (allJobs st)" for job
    using assms that by (simp add: search_fields_def)
  have cat: "category_stage (currentFilter st) (allJobs st) = Inr ?byCategory"
    using type by (rule category_stage_total)
  have "search_match (toLowerCase ?text) job = Inr (spec_search_match ?text job)"
    if "job \<in> set ?byCategory" for job
  proof (rule search_match_total)
    fix field assume "field \<in> set search_fields"
    moreover have "job \<in> set (allJobs st)"
      using that by (simp split: if_splits)
    ultimately show "get_prop job field \<noteq> Undefined"
      using assms by blast
  qed
  then have "filter_throw (search_match (toLowerCase ?text)) ?byCategory =
      Inr (filter (spec_search_match ?text) ?byCategory)"
    by (rule filter_throw_total)
  then have "search_stage (toLowerCase ?text) ?byCategory =
      Inr (if ?text \<noteq> [] then filter (spec_search_match ?text) ?byCategory else ?byCategory)"
    by (simp add: search_stage_def toLowerCase_def)
  with cat show "filteredJobs st =
      Inr (spec_filter (currentFilter st) ?text (allJobs st))"
    by (simp add: filteredJobs_def toLowerCase_trim spec_filter_def Let_def)
qed

lemma filteredJobs_result:
  assumes "filteredJobs st = Inr jobs"
  shows "jobs = spec_filter (currentFilter st) (js_trim (jobSearchInput_value st)) (allJobs st)"
proof -
  let ?text = "js_trim (jobSearchInput_value st)"
  from assms obtain byCategory where
    cat: "category_stage (currentFilter st) (allJobs st) = Inr byCategory" and
    search: "search_stage (toLowerCase ?text) byCategory = Inr jobs"
    by (auto simp: filteredJobs_def toLowerCase_trim split: sum.splits)
  have "byCategory = (if currentFilter st \<noteq> ''All''
      then filter (spec_category_match (currentFilter st)) (allJobs st) else allJobs st)"
  proof (cases "currentFilter st \<noteq> ''All''")
    case True
    with cat have "filter_throw (category_match (currentFilter st)) (allJobs st) = Inr byCategory"
      by (simp add: category_stage_def)
    then have "byCategory = filter (spec_category_match (currentFilter st)) (allJobs st)"
      by (rule filter_throw_result) (rule category_match_result)
    with True show ?thesis by simp
  next
    case False
    with cat show ?thesis by (simp add: category_stage_def)
  qed
  moreover have "jobs = (if ?text \<noteq> [] then filter (spec_search_match ?text) byCategory
      else byCategory)"
  proof (cases "?text \<noteq> []")
    case True
    with search have "filter_throw (search_match (toLowerCase ?text)) byCategory = Inr jobs"
      by (simp add: search_stage_def toLowerCase_def)
    then have "jobs = filter (spec_search_match ?text) byCategory"
      by (rule filter_throw_result) (rule search_match_result)
    with True show ?thesis by simp
  next
    case False
    with search show ?thesis by (simp add: search_stage_def toLowerCase_def)
  qed
  ultimately show ?thesis
    by (simp add: spec_filter_def Let_def)
qed

text \<open>
  Claim C4, amended. Whenever the filter gives a result, and it does so on every record set
  whose records have the five searched fields, the result is that of the claim for the
  trimmed search text: when the trimmed search text is not empty, exactly the records of
  the category stage for which the lower-cased trimmed search text is a substring of the
  lower-cased \<^verbatim>\<open>jobTitle\<close>, \<^verbatim>\<open>company\<close>, \<^verbatim>\<open>description\<close>, \<^verbatim>\<open>location\<close> or \<^verbatim>\<open>type\<close>
  (when it is empty, the records of the category stage); and the result is a subsequence
  of the records, in their order.
\<close>
theorem filteredJobs_search:
  "(\<forall>jobs. filteredJobs st = Inr jobs \<longrightarrow>
      jobs = spec_filter (currentFilter st) (js_trim (jobSearchInput_value st)) (allJobs st)) \<and>
   ((\<forall>job \<in> set (allJobs st). \<forall>field \<in> set search_fields. get_prop job field \<noteq> Undefined) \<longrightarrow>
      filteredJobs st =
        Inr (spec_filter (currentFilter st) (js_trim (jobSearchInput_value st)) (allJobs st))) \<and>
   subseq (spec_filter (currentFilter st) (js_trim (jobSearchInput_value st)) (allJobs st))
     (allJobs st)"
proof -
  have "subseq (spec_filter (currentFilter st) (js_trim (jobSearchInput_value st)) (allJobs st))
      (allJobs st)"
    unfolding spec_filter_def Let_def
    by (auto intro: subseq_order.trans [OF subseq_filter_left subseq_filter_left])
  then show ?thesis
    by (simp add: filteredJobs_result filteredJobs_total)
qed

theorem filteredJobs_search_witness:
  "list_all (\<lambda>job. list_all (\<lambda>field. get_prop job field \<noteq> Undefined) search_fields)
     (allJobs sample_board) \<and>
   js_trim (jobSearchInput_value sample_board) = ''acme'' \<and>
   filteredJobs sample_board = Inr [sample_job] \<and>
   spec_filter (currentFilter sample_board) ''acme'' (allJobs sample_board) = [sample_job] \<and>
   filteredJobs (sample_board\<lparr>jobSearchInput_value := ''clerk''\<rparr>) = Inr [sample_job] \<and>
   filteredJobs (sample_board\<lparr>jobSearchInput_value := ''driver''\<rparr>) = Inr []"
proof -
  have h: "\<forall>job \<in> set (allJobs sample_board). \<forall>field \<in> set search_fields.
      get_prop job field \<noteq> Undefined"
    by (simp add: sample_board_def sample_job_def search_fields_def get_prop_def)
  have t: "js_trim (jobSearchInput_value sample_board) = ''acme''"
    by (simp add: sample_board_def eval_defs)
  have s: "spec_filter (currentFilter sample_board) ''acme'' (allJobs sample_board) = [sample_job]"
    by (simp add: sample_board_def sample_job_def spec_filter_def spec_search_match_def
        search_fields_def to_string_def eval_defs)
  from filteredJobs_search [of sample_board] h
  have "filteredJobs sample_board =
      Inr (spec_filter (currentFilter sample_board) (js_trim (jobSearchInput_value sample_board))
        (allJobs sample_board))"
    by blast
  with t s have a: "filteredJobs sample_board = Inr [sample_job]"
    by simp
  have "filteredJobs (sample_board\<lparr>jobSearchInput_value := ''clerk''\<rparr>) = Inr [sample_job]"
    "filteredJobs (sample_board\<lparr>jobSearchInput_value := ''driver''\<rparr>) = Inr []"
    by (simp_all add: sample_board_def sample_job_def filteredJobs_def category_stage_def
        search_stage_def search_match_def field_includes_def or_else_def method_on_def eval_defs)
  with a t s h show ?thesis
    by (simp add: list_all_iff)
qed

text \<open>
  Claim C9. A search text made of white space only gives the same result as the empty
  search text: the term is trimmed before it is tested, the search stage is skipped, and
  the result is that of the category stage. What is rendered is the same too.
\<close>
theorem whitespace_search_skipped:
  assumes "\<forall>c \<in> set w. is_space c"
  shows "filteredJobs (st\<lparr>jobSearchInput_value := w\<rparr>) = filteredJobs (st\<lparr>jobSearchInput_value := []\<rparr>) \<and>
         filteredJobs (st\<lparr>jobSearchInput_value := w\<rparr>) = category_stage (currentFilter st) (allJobs st) \<and>
         filterAndSearchJobs (st\<lparr>jobSearchInput_value := w\<rparr>) =
           map_prod id (jobSearchInput_value_update (\<lambda>_. w))
             (filterAndSearchJobs (st\<lparr>jobSearchInput_value := []\<rparr>))"
proof -
  have "js_trim w = []"
    using assms by (simp add: js_trim_spaces)
  then have "js_trim (toLowerCase w) = []"
    unfolding toLowerCase_trim by (simp only: toLowerCase_def list.map)
  then have a: "filteredJobs (st\<lparr>jobSearchInput_value := w\<rparr>) = category_stage (currentFilter st) (allJobs st)"
    by (simp add: filteredJobs_def search_stage_def split: sum.splits)
  have b: "filteredJobs (st\<lparr>jobSearchInput_value := []\<rparr>) = category_stage (currentFilter st) (allJobs st)"
    by (simp add: filteredJobs_def search_stage_def js_trim_def toLowerCase_def split: sum.splits)
  have "filterAndSearchJobs (st\<lparr>jobSearchInput_value := w\<rparr>) =
           map_prod id (jobSearchInput_value_update (\<lambda>_. w))
             (filterAndSearchJobs (st\<lparr>jobSearchInput_value := []\<rparr>))"
    unfolding filterAndSearchJobs_def a b
    by (simp add: renderJobs_def Let_def split: sum.splits)
  with a b show ?thesis by simp
qed

theorem whitespace_search_skipped_witness:
  "is_space CHR '' '' \<and> is_space CHR 0x09 \<and>
   filteredJobs (sample_board\<lparr>jobSearchInput_value := [CHR '' '', CHR 0x09]\<rparr>) =
     Inr (allJobs sample_board)"
proof -
  have h: "\<forall>c \<in> set [CHR '' '', CHR 0x09]. is_space c"
    by (simp add: is_space_def)
  have "category_stage (currentFilter sample_board) (allJobs sample_board) =
      Inr (allJobs sample_board)"
    by (simp add: sample_board_def sample_job_def category_stage_def)
  moreover from whitespace_search_skipped [OF h, of sample_board]
  have "filteredJobs (sample_board\<lparr>jobSearchInput_value := [CHR '' '', CHR 0x09]\<rparr>) =
      category_stage (currentFilter sample_board) (allJobs sample_board)"
    by blast
  ultimately show ?thesis
    using h by simp
qed


section \<open>The controller: invalid records and the empty board\<close>

lemma valid_job_iff: "valid_job job \<longleftrightarrow> \<not> spec_invalid job"
  by (cases "get_prop job ''jobTitle''")
    (simp_all add: valid_job_def spec_invalid_def truthy_def to_string_def)

lemma init_try_empty:
  assumes "filter valid_job (parseCSV csvText) = []"
  shows "init_try (Response True status (Inr csvText)) st =
    (Some (Error ''No valid job data found after parsing.''), st\<lparr>allJobs := []\<rparr>)"
  using assms by (simp add: init_try_def)

lemma allJobs_renderJobs: "allJobs (snd (renderJobs jobs st)) = allJobs st"
  by (simp add: renderJobs_def Let_def split: sum.splits)

lemma allJobs_setupFilters: "allJobs (snd (setupFilters st)) = allJobs st"
  by (simp add: setupFilters_def Let_def split: sum.splits)

lemma allJobs_init_try:
  "allJobs (snd (init_try (Response True status (Inr csvText)) st)) =
     filter valid_job (parseCSV csvText)"
proof (cases "filter valid_job (parseCSV csvText) = []")
  case True
  then show ?thesis by (simp add: init_try_empty)
next
  case False
  let ?st2 = "st\<lparr>allJobs := filter valid_job (parseCSV csvText)\<rparr>"
  show ?thesis
  proof (cases "setupFilters ?st2")
    case (Pair r st3)
    with allJobs_setupFilters [of ?st2] have st3: "allJobs st3 = filter valid_job (parseCSV csvText)"
      by simp
    show ?thesis
    proof (cases r)
      case None
      with False Pair st3 allJobs_renderJobs [of "allJobs st3" st3] show ?thesis
        by (simp add: init_try_def)
    next
      case (Some e)
      with False Pair st3 show ?thesis
        by (simp add: init_try_def)
    qed
  qed
qed

lemma allJobs_initJobBoard:
  "allJobs (initJobBoard engine (Response True status (Inr csvText)) st) =
     filter valid_job (parseCSV csvText)"
  using allJobs_init_try [of status csvText st]
  by (cases "init_try (Response True status (Inr csvText)) st")
    (simp add: initJobBoard_def split: option.splits)

text \<open>
  Claim C2. After a successful response, the records kept in \<^verbatim>\<open>allJobs\<close> are the parsed
  records, in order, without those whose \<^verbatim>\<open>jobTitle\<close> is missing, empty or equal to
  "jobtitle" up to case. If none is left, the \<^verbatim>\<open>try\<close> block throws the error with the
  message "No valid job data found after parsing.", and the board shows the error block
  with this message; the filter buttons and the "no results" indicator are not touched.
\<close>
theorem initJobBoard_discards_invalid:
  "(let st' = initJobBoard engine (Response True status (Inr csvText)) st
    in allJobs st' = filter (\<lambda>job. \<not> spec_invalid job) (parseCSV csvText) \<and>
       (\<forall>job \<in> set (parseCSV csvText). spec_invalid job \<longrightarrow> job \<notin> set (allJobs st')) \<and>
       (allJobs st' = [] \<longrightarrow>
          init_try (Response True status (Inr csvText)) st =
            (Some (Error ''No valid job data found after parsing.''), st\<lparr>allJobs := []\<rparr>) \<and>
          st' = st\<lparr>allJobs := [],
                   jobCardsContainer_innerHTML :=
                     error_block ''No valid job data found after parsing.''\<rparr>))"
proof -
  let ?st' = "initJobBoard engine (Response True status (Inr csvText)) st"
  have valid: "valid_job = (\<lambda>job. \<not> spec_invalid job)"
    by (rule ext) (rule valid_job_iff)
  have jobs: "allJobs ?st' = filter (\<lambda>job. \<not> spec_invalid job) (parseCSV csvText)"
    by (simp add: allJobs_initJobBoard valid)
  have "init_try (Response True status (Inr csvText)) st =
            (Some (Error ''No valid job data found after parsing.''), st\<lparr>allJobs := []\<rparr>) \<and>
        ?st' = st\<lparr>allJobs := [],
                   jobCardsContainer_innerHTML :=
                     error_block ''No valid job data found after parsing.''\<rparr>"
    if "allJobs ?st' = []"
  proof -
    from that have "filter valid_job (parseCSV csvText) = []"
      by (simp only: allJobs_initJobBoard)
    then have "init_try (Response True status (Inr csvText)) st =
        (Some (Error ''No valid job data found after parsing.''), st\<lparr>allJobs := []\<rparr>)"
      by (rule init_try_empty)
    then show ?thesis
      by (simp add: initJobBoard_def error_message_def)
  qed
  with jobs show ?thesis
    unfolding Let_def by simp
qed

theorem initJobBoard_discards_invalid_witness:
  "[(''jobTitle'', Str ''JobTitle''), (''type'', Str ''x'')]
     \<in> set (parseCSV ''Job Title,Type\<newline>Dev,WFH\<newline>JobTitle,x\<newline>,y'') \<and>
   spec_invalid [(''jobTitle'', Str ''JobTitle''), (''type'', Str ''x'')] \<and>
   allJobs (initJobBoard (\<lambda>name. name) (Response True 200 (Inr ''Job Title,Type\<newline>Dev,WFH\<newline>JobTitle,x\<newline>,y''))
     sample_board) = [[(''jobTitle'', Str ''Dev''), (''type'', Str ''WFH'')]] \<and>
   allJobs (initJobBoard (\<lambda>name. name) (Response True 200 (Inr ''Job Title,Type\<newline>,y'')) sample_board) = [] \<and>
   jobCardsContainer_innerHTML
     (initJobBoard (\<lambda>name. name) (Response True 200 (Inr ''Job Title,Type\<newline>,y'')) sample_board) =
     error_block ''No valid job data found after parsing.''"
proof -
  let ?csv = "''Job Title,Type\<newline>Dev,WFH\<newline>JobTitle,x\<newline>,y''"
  let ?bad = "''Job Title,Type\<newline>,y''"
  have p: "parseCSV ?csv = [[(''jobTitle'', Str ''Dev''), (''type'', Str ''WFH'')],
      [(''jobTitle'', Str ''JobTitle''), (''type'', Str ''x'')],
      [(''jobTitle'', Str []), (''type'', Str ''y'')]]"
    by (simp add: eval_defs)
  have q: "parseCSV ?bad = [[(''jobTitle'', Str []), (''type'', Str ''y'')]]"
    by (simp add: eval_defs)
  have i: "spec_invalid [(''jobTitle'', Str ''JobTitle''), (''type'', Str ''x'')]"
    "spec_invalid [(''jobTitle'', Str []), (''type'', Str ''y'')]"
    "\<not> spec_invalid [(''jobTitle'', Str ''Dev''), (''type'', Str ''WFH'')]"
    by (simp_all add: spec_invalid_def eval_defs)
  let ?ok = "initJobBoard (\<lambda>name. name) (Response True 200 (Inr ?csv)) sample_board"
  let ?err = "initJobBoard (\<lambda>name. name) (Response True 200 (Inr ?bad)) sample_board"
  from initJobBoard_discards_invalid [of "\<lambda>name. name" 200 ?csv sample_board]
  have "allJobs ?ok = filter (\<lambda>job. \<not> spec_invalid job) (parseCSV ?csv)"
    unfolding Let_def by blast
  then have ok: "allJobs ?ok = [[(''jobTitle'', Str ''Dev''), (''type'', Str ''WFH'')]]"
    unfolding p using i by simp
  from initJobBoard_discards_invalid [of "\<lambda>name. name" 200 ?bad sample_board]
  have "allJobs ?err = filter (\<lambda>job. \<not> spec_invalid job) (parseCSV ?bad)"
    and imp: "allJobs ?err = [] \<longrightarrow>
      ?err = sample_board\<lparr>allJobs := [],
        jobCardsContainer_innerHTML := error_block ''No valid job data found after parsing.''\<rparr>"
    unfolding Let_def by blast+
  then have none: "allJobs ?err = []"
    unfolding q using i by simp
  with imp have "?err = sample_board\<lparr>allJobs := [],
        jobCardsContainer_innerHTML := error_block ''No valid job data found after parsing.''\<rparr>"
    by blast
  then have "jobCardsContainer_innerHTML ?err = error_block ''No valid job data found after parsing.''"
    by simp
  with ok none show ?thesis
    using i p by simp
qed


section \<open>The card: status, apply control and description\<close>

lemma get_prop_set_prop:
  "k \<noteq> ''__proto__'' \<Longrightarrow>
   get_prop (set_prop k v job) k' = (if k' = k then v else get_prop job k')"
  by (simp add: get_prop_def set_prop_def update_conv')

lemma createJobCardHTML_cong:
  assumes "\<And>k. k \<noteq> ''status'' \<Longrightarrow> get_prop job k = get_prop job' k"
    and "jobStatus_of job = jobStatus_of job'"
  shows "createJobCardHTML job = createJobCardHTML job'"
proof -
  have "get_prop job ''type'' = get_prop job' ''type''"
    "get_prop job ''description'' = get_prop job' ''description''"
    "get_prop job ''jobTitle'' = get_prop job' ''jobTitle''"
    "get_prop job ''company'' = get_prop job' ''company''"
    "get_prop job ''location'' = get_prop job' ''location''"
    "get_prop job ''salary'' = get_prop job' ''salary''"
    "get_prop job ''applyLink'' = get_prop job' ''applyLink''"
    by (simp_all add: assms(1))
  note eqs = this
  then have "icon_of job = icon_of job'" "salary_text job = salary_text job'"
    "applyButtonHTML job = applyButtonHTML job'"
    by (simp_all add: icon_of_def salary_text_def applyButtonHTML_def fun_eq_iff)
  note funs = this
  show ?thesis
    unfolding createJobCardHTML_def assms(2) eqs funs by (rule refl)
qed

lemma createJobCardHTML_renders:
  "(\<exists>html. createJobCardHTML job = Inr html) \<longleftrightarrow>
   get_prop job ''type'' \<noteq> Undefined \<and> get_prop job ''description'' \<noteq> Undefined"
  by (cases "get_prop job ''type''"; cases "get_prop job ''description''")
    (simp_all add: createJobCardHTML_def icon_of_def method_on_def Let_def)

lemma createJobCardHTML_card:
  assumes "get_prop job ''type'' = Str t" and "get_prop job ''description'' = Str d"
  shows \<open>\<exists>icon. icon_of job = Inr icon \<and>
    createJobCardHTML job = Inr (
      ''\<newline>        <div class="job-card">\<newline>            \<newline>            '' @
      ''<span class="job-status-tag '' @ badgeClass_of (jobStatus_of job) @ ''">'' @
      toUpperCase (jobStatus_of job) @ ''</span>'' @
      card_details job icon @
      ''<p>'' @ take 100 d @ ''...</p>'' @
      ''\<newline>            \<newline>            '' @
      applyButtonHTML job (jobStatus_of job) @
      ''\<newline>\<newline>        </div>\<newline>    '')\<close>
proof -
  from assms(1) obtain icon where icon: "icon_of job = Inr icon"
    by (simp add: icon_of_def method_on_def)
  with assms(2) have \<open>createJobCardHTML job = Inr (
      ''\<newline>        <div class="job-card">\<newline>            \<newline>            '' @
      ''<span class="job-status-tag '' @ badgeClass_of (jobStatus_of job) @ ''">'' @
      toUpperCase (jobStatus_of job) @ ''</span>'' @
      card_details job icon @
      ''<p>'' @ take 100 d @ ''...</p>'' @
      ''\<newline>            \<newline>            '' @
      applyButtonHTML job (jobStatus_of job) @
      ''\<newline>\<newline>        </div>\<newline>    '')\<close>
    by (simp add: createJobCardHTML_def method_on_def Let_def card_details_def)
  with icon show ?thesis
    by blast
qed

lemma jobStatus_of_closed:
  assumes "get_prop job ''status'' = Str s" and "js_trim s = ''Expired'' \<or> js_trim s = ''Filled''"
  shows "jobStatus_of job = js_trim s"
proof -
  from assms(2) have "s \<noteq> []"
    by (auto simp: js_trim_def)
  with assms(1) show ?thesis
    by (simp add: jobStatus_of_def truthy_def to_string_def)
qed

lemma jobStatus_of_falsy:
  "get_prop job ''status'' = Undefined \<or> get_prop job ''status'' = Str [] \<Longrightarrow>
   jobStatus_of job = ''Active''"
  by (auto simp: jobStatus_of_def truthy_def)

lemma active_controls:
  \<open>badgeClass_of ''Active'' = ''status-active'' \<and> toUpperCase ''Active'' = ''ACTIVE'' \<and>
   applyButtonHTML job ''Active'' =
     ''<a href="'' @ to_string (get_prop job ''applyLink'') @
     ''" target="_blank" class="apply-btn">Apply Now <i class="fas fa-arrow-right"></i></a>''\<close>
  by (simp add: badgeClass_of_def applyButtonHTML_def isApplyActive_of_def toUpperCase_def
      upper_char_def char_of_eq_iff)

lemma closed_controls:
  assumes "jobStatus = ''Expired'' \<or> jobStatus = ''Filled''"
  shows \<open>badgeClass_of jobStatus = ''status-closed'' \<and>
    applyButtonHTML job jobStatus =
      ''<button class="apply-btn disabled">Application '' @ jobStatus @ ''</button>''\<close>
  using assms by (auto simp: badgeClass_of_def applyButtonHTML_def isApplyActive_of_def)

lemma createJobCardHTML_open_card:
  assumes "get_prop job ''type'' = Str t" and "get_prop job ''description'' = Str d"
    and "get_prop job ''status'' = Undefined \<or> get_prop job ''status'' = Str []"
  shows \<open>\<exists>icon. icon_of job = Inr icon \<and>
    createJobCardHTML job = Inr (
      ''\<newline>        <div class="job-card">\<newline>            \<newline>            '' @
      ''<span class="job-status-tag status-active">ACTIVE</span>'' @
      card_details job icon @
      ''<p>'' @ take 100 d @ ''...</p>'' @
      ''\<newline>            \<newline>            '' @
      ''<a href="'' @ to_string (get_prop job ''applyLink'') @
        ''" target="_blank" class="apply-btn">Apply Now <i class="fas fa-arrow-right"></i></a>'' @
      ''\<newline>\<newline>        </div>\<newline>    '')\<close>
proof -
  from assms(3) have "jobStatus_of job = ''Active''"
    by (rule jobStatus_of_falsy)
  with createJobCardHTML_card [OF assms(1,2)] show ?thesis
    by (simp add: active_controls)
qed

lemma sample_job_props:
  "get_prop sample_job ''type'' = Str ''Data Entry''"
  "get_prop sample_job ''description'' = Str ''Typing''"
  "get_prop sample_job ''status'' = Undefined"
  "icon_of sample_job = Inr ''fas fa-keyboard''"
  \<open>card_details sample_job ''fas fa-keyboard'' =
        ''\<newline>            \<newline>            <h3 title="Clerk">Clerk</h3>\<newline>'' @
        ''            <span class="company">Acme</span>\<newline>'' @
        ''            <div class="meta">\<newline>'' @
        ''                <span><i class="fas fa-keyboard"></i> Data Entry</span>\<newline>'' @
        ''                <span><i class="fas fa-map-marker-alt"></i> Pilibhit</span>\<newline>'' @
        ''                <span><i class="fas fa-money-bill-wave"></i> Competitive</span>\<newline>'' @
        ''            </div>\<newline>            ''\<close>
  by (simp_all add: sample_job_def get_prop_def icon_of_def method_on_def card_details_def
      to_string_def salary_text_def truthy_def toLowerCase_def lower_char_def char_of_eq_iff
      char_eq_char_of)

text \<open>
  Claim C1. A record with \<^verbatim>\<open>type\<close> and \<^verbatim>\<open>description\<close> is rendered, and the card is
  given in full. When its trimmed \<^verbatim>\<open>status\<close> is "Expired" or "Filled", the badge has the
  class \<^verbatim>\<open>status-closed\<close> and the apply control, the last element of the card, is the
  disabled button labelled "Application Expired" or "Application Filled"; the control
  holds no link (\<^verbatim>\<open>href\<close>, \<^verbatim>\<open><a\<close>) and the card does not depend on \<^verbatim>\<open>applyLink\<close>.
  When the record has no \<^verbatim>\<open>status\<close>, the card is the card of the same record with the
  status "Active": the badge has the class \<^verbatim>\<open>status-active\<close> and the apply control is the
  link to \<^verbatim>\<open>applyLink\<close> with \<^verbatim>\<open>target="_blank"\<close>.
\<close>
theorem createJobCardHTML_status:
  \<open>(get_prop job ''type'' = Str t \<and> get_prop job ''description'' = Str d \<and>
    get_prop job ''status'' = Str s \<and> (js_trim s = ''Expired'' \<or> js_trim s = ''Filled'') \<longrightarrow>
      (\<exists>icon. icon_of job = Inr icon \<and>
         createJobCardHTML job = Inr (
           ''\<newline>        <div class="job-card">\<newline>            \<newline>            '' @
           ''<span class="job-status-tag status-closed">'' @ toUpperCase (js_trim s) @ ''</span>'' @
           card_details job icon @
           ''<p>'' @ take 100 d @ ''...</p>'' @
           ''\<newline>            \<newline>            '' @
           ''<button class="apply-btn disabled">Application '' @ js_trim s @ ''</button>'' @
           ''\<newline>\<newline>        </div>\<newline>    ''))) \<and>
   (get_prop job ''status'' = Str s \<and> (js_trim s = ''Expired'' \<or> js_trim s = ''Filled'') \<longrightarrow>
      badgeClass_of (jobStatus_of job) = ''status-closed'' \<and>
      applyButtonHTML job (jobStatus_of job) =
        ''<button class="apply-btn disabled">Application '' @ js_trim s @ ''</button>'' \<and>
      \<not> js_includes (applyButtonHTML job (jobStatus_of job)) ''href'' \<and>
      \<not> js_includes (applyButtonHTML job (jobStatus_of job)) ''<a '' \<and>
      (\<forall>v. createJobCardHTML (set_prop ''applyLink'' v job) = createJobCardHTML job)) \<and>
   (get_prop job ''status'' = Undefined \<longrightarrow>
      createJobCardHTML job = createJobCardHTML (set_prop ''status'' (Str ''Active'') job)) \<and>
   (get_prop job ''type'' = Str t \<and> get_prop job ''description'' = Str d \<and>
    get_prop job ''status'' = Undefined \<longrightarrow>
      (\<exists>icon. icon_of job = Inr icon \<and>
         createJobCardHTML job = Inr (
           ''\<newline>        <div class="job-card">\<newline>            \<newline>            '' @
           ''<span class="job-status-tag status-active">ACTIVE</span>'' @
           card_details job icon @
           ''<p>'' @ take 100 d @ ''...</p>'' @
           ''\<newline>            \<newline>            '' @
           ''<a href="'' @ to_string (get_prop job ''applyLink'') @
           ''" target="_blank" class="apply-btn">Apply Now <i class="fas fa-arrow-right"></i></a>'' @
           ''\<newline>\<newline>        </div>\<newline>    '')))\<close>
proof (intro conjI impI; (elim conjE)?)
  assume td: "get_prop job ''type'' = Str t" "get_prop job ''description'' = Str d"
    and s: "get_prop job ''status'' = Str s" "js_trim s = ''Expired'' \<or> js_trim s = ''Filled''"
  from s have st: "jobStatus_of job = js_trim s"
    by (rule jobStatus_of_closed)
  from createJobCardHTML_card [OF td] closed_controls [OF s(2), of job]
  show \<open>\<exists>icon. icon_of job = Inr icon \<and>
         createJobCardHTML job = Inr (
           ''\<newline>        <div class="job-card">\<newline>            \<newline>            '' @
           ''<span class="job-status-tag status-closed">'' @ toUpperCase (js_trim s) @ ''</span>'' @
           card_details job icon @
           ''<p>'' @ take 100 d @ ''...</p>'' @
           ''\<newline>            \<newline>            '' @
           ''<button class="apply-btn disabled">Application '' @ js_trim s @ ''</button>'' @
           ''\<newline>\<newline>        </div>\<newline>    '')\<close>
    unfolding st by simp
next
  assume s: "get_prop job ''status'' = Str s" "js_trim s = ''Expired'' \<or> js_trim s = ''Filled''"
  then have st: "jobStatus_of job = js_trim s"
    by (rule jobStatus_of_closed)
  from closed_controls [OF s(2), of job]
  show "badgeClass_of (jobStatus_of job) = ''status-closed''"
    and button: \<open>applyButtonHTML job (jobStatus_of job) =
        ''<button class="apply-btn disabled">Application '' @ js_trim s @ ''</button>''\<close>
    unfolding st by simp_all
  from s(2) show "\<not> js_includes (applyButtonHTML job (jobStatus_of job)) ''href''"
    unfolding button by (rule disjE) simp_all
  from s(2) show "\<not> js_includes (applyButtonHTML job (jobStatus_of job)) ''<a ''"
    unfolding button by (rule disjE) simp_all
  show "\<forall>v. createJobCardHTML (set_prop ''applyLink'' v job) = createJobCardHTML job"
  proof
    fix v
    let ?job = "set_prop ''applyLink'' v job"
    have eqs: "get_prop ?job ''type'' = get_prop job ''type''"
      "get_prop ?job ''description'' = get_prop job ''description''"
      "get_prop ?job ''jobTitle'' = get_prop job ''jobTitle''"
      "get_prop ?job ''company'' = get_prop job ''company''"
      "get_prop ?job ''location'' = get_prop job ''location''"
      "get_prop ?job ''salary'' = get_prop job ''salary''"
      "get_prop ?job ''status'' = get_prop job ''status''"
      by (simp_all add: get_prop_set_prop)
    then have funs: "icon_of ?job = icon_of job" "salary_text ?job = salary_text job"
      "jobStatus_of ?job = jobStatus_of job"
      by (simp_all add: icon_of_def salary_text_def jobStatus_of_def)
    have control: "applyButtonHTML ?job (js_trim s) = applyButtonHTML job (js_trim s)"
      using closed_controls [OF s(2), of ?job] closed_controls [OF s(2), of job] by simp
    show "createJobCardHTML ?job = createJobCardHTML job"
      unfolding createJobCardHTML_def Let_def funs eqs unfolding st control by (rule refl)
  qed
next
  assume u: "get_prop job ''status'' = Undefined"
  then have st: "jobStatus_of job = ''Active''"
    by (simp add: jobStatus_of_falsy)
  have "jobStatus_of (set_prop ''status'' (Str ''Active'') job) = ''Active''"
    by (simp add: jobStatus_of_def get_prop_set_prop truthy_def to_string_def js_trim_def
        is_space_def)
  with st show "createJobCardHTML job = createJobCardHTML (set_prop ''status'' (Str ''Active'') job)"
    by (intro createJobCardHTML_cong) (simp_all add: get_prop_set_prop)
next
  assume "get_prop job ''type'' = Str t" "get_prop job ''description'' = Str d"
    "get_prop job ''status'' = Undefined"
  then show \<open>\<exists>icon. icon_of job = Inr icon \<and>
         createJobCardHTML job = Inr (
           ''\<newline>        <div class="job-card">\<newline>            \<newline>            '' @
           ''<span class="job-status-tag status-active">ACTIVE</span>'' @
           card_details job icon @
           ''<p>'' @ take 100 d @ ''...</p>'' @
           ''\<newline>            \<newline>            '' @
           ''<a href="'' @ to_string (get_prop job ''applyLink'') @
           ''" target="_blank" class="apply-btn">Apply Now <i class="fas fa-arrow-right"></i></a>'' @
           ''\<newline>\<newline>        </div>\<newline>    '')\<close>
    by (intro createJobCardHTML_open_card) simp_all
qed

theorem createJobCardHTML_status_witness:
  \<open>get_prop (set_prop ''status'' (Str '' Expired '') sample_job) ''status'' = Str '' Expired '' \<and>
   js_trim '' Expired '' = ''Expired'' \<and>
   createJobCardHTML (set_prop ''status'' (Str '' Expired '') sample_job) = Inr (
     ''\<newline>        <div class="job-card">\<newline>            \<newline>            '' @
     ''<span class="job-status-tag status-closed">EXPIRED</span>'' @
     ''\<newline>            \<newline>            <h3 title="Clerk">Clerk</h3>\<newline>'' @
     ''            <span class="company">Acme</span>\<newline>'' @
     ''            <div class="meta">\<newline>'' @
     ''                <span><i class="fas fa-keyboard"></i> Data Entry</span>\<newline>'' @
     ''                <span><i class="fas fa-map-marker-alt"></i> Pilibhit</span>\<newline>'' @
     ''                <span><i class="fas fa-money-bill-wave"></i> Competitive</span>\<newline>'' @
     ''            </div>\<newline>            '' @
     ''<p>'' @ ''Typing'' @ ''...</p>'' @
     ''\<newline>            \<newline>            '' @
     ''<button class="apply-btn disabled">Application Expired</button>'' @
     ''\<newline>\<newline>        </div>\<newline>    '') \<and>
   get_prop sample_job ''status'' = Undefined \<and>
   createJobCardHTML sample_job = Inr (
     ''\<newline>        <div class="job-card">\<newline>            \<newline>            '' @
     ''<span class="job-status-tag status-active">ACTIVE</span>'' @
     ''\<newline>            \<newline>            <h3 title="Clerk">Clerk</h3>\<newline>'' @
     ''            <span class="company">Acme</span>\<newline>'' @
     ''            <div class="meta">\<newline>'' @
     ''                <span><i class="fas fa-keyboard"></i> Data Entry</span>\<newline>'' @
     ''                <span><i class="fas fa-map-marker-alt"></i> Pilibhit</span>\<newline>'' @
     ''                <span><i class="fas fa-money-bill-wave"></i> Competitive</span>\<newline>'' @
     ''            </div>\<newline>            '' @
     ''<p>'' @ ''Typing'' @ ''...</p>'' @
     ''\<newline>            \<newline>            '' @
     ''<a href="https://example.org/apply" target="_blank" class="apply-btn">'' @
     ''Apply Now <i class="fas fa-arrow-right"></i></a>'' @
     ''\<newline>\<newline>        </div>\<newline>    '') \<and>
   createJobCardHTML (set_prop ''status'' (Str ''Active'') sample_job) = createJobCardHTML sample_job\<close>
proof -
  let ?job = "set_prop ''status'' (Str '' Expired '') sample_job"
  have s: "get_prop ?job ''status'' = Str '' Expired ''"
    and td: "get_prop ?job ''type'' = Str ''Data Entry''"
      "get_prop ?job ''description'' = Str ''Typing''"
    and icon: "icon_of ?job = icon_of sample_job"
    and details: "card_details ?job = card_details sample_job"
    by (simp_all add: get_prop_set_prop sample_job_props icon_of_def card_details_def
        salary_text_def fun_eq_iff)
  have t: "js_trim '' Expired '' = ''Expired''"
    by (simp add: js_trim_def is_space_def)
  from createJobCardHTML_status [of ?job "''Data Entry''" "''Typing''" "'' Expired ''"] s td t
  obtain icon where i: "icon_of ?job = Inr icon" and
    c: \<open>createJobCardHTML ?job = Inr (
      ''\<newline>        <div class="job-card">\<newline>            \<newline>            '' @
      ''<span class="job-status-tag status-closed">'' @ toUpperCase (js_trim '' Expired '') @
      ''</span>'' @
      card_details ?job icon @
      ''<p>'' @ take 100 ''Typing'' @ ''...</p>'' @
      ''\<newline>            \<newline>            '' @
      ''<button class="apply-btn disabled">Application '' @ js_trim '' Expired '' @ ''</button>'' @
      ''\<newline>\<newline>        </div>\<newline>    '')\<close>
    by blast
  from i have "icon = ''fas fa-keyboard''"
    by (simp add: icon sample_job_props)
  with c have closed: \<open>createJobCardHTML ?job = Inr (
     ''\<newline>        <div class="job-card">\<newline>            \<newline>            '' @
     ''<span class="job-status-tag status-closed">EXPIRED</span>'' @
     ''\<newline>            \<newline>            <h3 title="Clerk">Clerk</h3>\<newline>'' @
     ''            <span class="company">Acme</span>\<newline>'' @
     ''            <div class="meta">\<newline>'' @
     ''                <span><i class="fas fa-keyboard"></i> Data Entry</span>\<newline>'' @
     ''                <span><i class="fas fa-map-marker-alt"></i> Pilibhit</span>\<newline>'' @
     ''                <span><i class="fas fa-money-bill-wave"></i> Competitive</span>\<newline>'' @
     ''            </div>\<newline>            '' @
     ''<p>'' @ ''Typing'' @ ''...</p>'' @
     ''\<newline>            \<newline>            '' @
     ''<button class="apply-btn disabled">Application Expired</button>'' @
     ''\<newline>\<newline>        </div>\<newline>    '')\<close>
    unfolding t details
    by (simp add: sample_job_props toUpperCase_def upper_char_def char_of_eq_iff)
  from createJobCardHTML_status [of sample_job "''Data Entry''" "''Typing''" "[]"]
    sample_job_props(1-3)
  obtain icon where i: "icon_of sample_job = Inr icon" and
    c: \<open>createJobCardHTML sample_job = Inr (
      ''\<newline>        <div class="job-card">\<newline>            \<newline>            '' @
      ''<span class="job-status-tag status-active">ACTIVE</span>'' @
      card_details sample_job icon @
      ''<p>'' @ take 100 ''Typing'' @ ''...</p>'' @
      ''\<newline>            \<newline>            '' @
      ''<a href="'' @ to_string (get_prop sample_job ''applyLink'') @
      ''" target="_blank" class="apply-btn">Apply Now <i class="fas fa-arrow-right"></i></a>'' @
      ''\<newline>\<newline>        </div>\<newline>    '')\<close>
    and same: "createJobCardHTML sample_job =
      createJobCardHTML (set_prop ''status'' (Str ''Active'') sample_job)"
    by blast
  from i have "icon = ''fas fa-keyboard''"
    by (simp add: sample_job_props)
  with c have opened: \<open>createJobCardHTML sample_job = Inr (
     ''\<newline>        <div class="job-card">\<newline>            \<newline>            '' @
     ''<span class="job-status-tag status-active">ACTIVE</span>'' @
     ''\<newline>            \<newline>            <h3 title="Clerk">Clerk</h3>\<newline>'' @
     ''            <span class="company">Acme</span>\<newline>'' @
     ''            <div class="meta">\<newline>'' @
     ''                <span><i class="fas fa-keyboard"></i> Data Entry</span>\<newline>'' @
     ''                <span><i class="fas fa-map-marker-alt"></i> Pilibhit</span>\<newline>'' @
     ''                <span><i class="fas fa-money-bill-wave"></i> Competitive</span>\<newline>'' @
     ''            </div>\<newline>            '' @
     ''<p>'' @ ''Typing'' @ ''...</p>'' @
     ''\<newline>            \<newline>            '' @
     ''<a href="https://example.org/apply" target="_blank" class="apply-btn">'' @
     ''Apply Now <i class="fas fa-arrow-right"></i></a>'' @
     ''\<newline>\<newline>        </div>\<newline>    '')\<close>
    by (simp add: sample_job_props) (simp add: sample_job_def get_prop_def to_string_def)
  from s t closed opened same sample_job_props(3) show ?thesis
    by simp
qed

text \<open>
  Claim C6. A record with \<^verbatim>\<open>type\<close> and \<^verbatim>\<open>description\<close> is rendered (and no other is),
  and its card shows, between the details and the apply control, the first 100 characters
  of the description followed by "...", whatever the length of the description: for a
  description of at most 100 characters the whole description is shown and "..." is
  appended all the same.
\<close>
theorem description_truncated:
  \<open>(get_prop job ''type'' = Str t \<and> get_prop job ''description'' = Str d \<longrightarrow>
      (\<exists>icon pre post.
         icon_of job = Inr icon \<and>
         pre = ''\<newline>        <div class="job-card">\<newline>            \<newline>            '' @
           ''<span class="job-status-tag '' @ badgeClass_of (jobStatus_of job) @ ''">'' @
           toUpperCase (jobStatus_of job) @ ''</span>'' @
           card_details job icon \<and>
         post = ''\<newline>            \<newline>            '' @
           applyButtonHTML job (jobStatus_of job) @
           ''\<newline>\<newline>        </div>\<newline>    '' \<and>
         createJobCardHTML job = Inr (pre @ ''<p>'' @ take 100 d @ ''...</p>'' @ post) \<and>
         (length d \<le> 100 \<longrightarrow>
            createJobCardHTML job = Inr (pre @ ''<p>'' @ d @ ''...</p>'' @ post)))) \<and>
   (createJobCardHTML job = Inr html \<longrightarrow>
      get_prop job ''type'' \<noteq> Undefined \<and> get_prop job ''description'' \<noteq> Undefined)\<close>
proof (intro conjI impI; (elim conjE)?)
  assume td: "get_prop job ''type'' = Str t" "get_prop job ''description'' = Str d"
  from createJobCardHTML_card [OF td] obtain icon where
    icon: "icon_of job = Inr icon" and
    card: \<open>createJobCardHTML job = Inr (
      ''\<newline>        <div class="job-card">\<newline>            \<newline>            '' @
      ''<span class="job-status-tag '' @ badgeClass_of (jobStatus_of job) @ ''">'' @
           toUpperCase (jobStatus_of job) @ ''</span>'' @
      card_details job icon @
      ''<p>'' @ take 100 d @ ''...</p>'' @
      ''\<newline>            \<newline>            '' @
      applyButtonHTML job (jobStatus_of job) @
      ''\<newline>\<newline>        </div>\<newline>    '')\<close>
    by blast
  let ?pre = \<open>''\<newline>        <div class="job-card">\<newline>            \<newline>            '' @
      ''<span class="job-status-tag '' @ badgeClass_of (jobStatus_of job) @ ''">'' @
           toUpperCase (jobStatus_of job) @ ''</span>'' @
      card_details job icon\<close>
  let ?post = \<open>''\<newline>            \<newline>            '' @
      applyButtonHTML job (jobStatus_of job) @
      ''\<newline>\<newline>        </div>\<newline>    ''\<close>
  from card have "createJobCardHTML job = Inr (?pre @ ''<p>'' @ take 100 d @ ''...</p>'' @ ?post)"
    by simp
  moreover from this
  have "length d \<le> 100 \<longrightarrow> createJobCardHTML job = Inr (?pre @ ''<p>'' @ d @ ''...</p>'' @ ?post)"
    by simp
  ultimately show \<open>\<exists>icon pre post.
         icon_of job = Inr icon \<and>
         pre = ''\<newline>        <div class="job-card">\<newline>            \<newline>            '' @
           ''<span class="job-status-tag '' @ badgeClass_of (jobStatus_of job) @ ''">'' @
           toUpperCase (jobStatus_of job) @ ''</span>'' @
           card_details job icon \<and>
         post = ''\<newline>            \<newline>            '' @
           applyButtonHTML job (jobStatus_of job) @
           ''\<newline>\<newline>        </div>\<newline>    '' \<and>
         createJobCardHTML job = Inr (pre @ ''<p>'' @ take 100 d @ ''...</p>'' @ post) \<and>
         (length d \<le> 100 \<longrightarrow>
            createJobCardHTML job = Inr (pre @ ''<p>'' @ d @ ''...</p>'' @ post))\<close>
    using icon by blast
next
  assume "createJobCardHTML job = Inr html"
  then have "\<exists>html. createJobCardHTML job = Inr html" ..
  then show "get_prop job ''type'' \<noteq> Undefined" "get_prop job ''description'' \<noteq> Undefined"
    by (simp_all add: createJobCardHTML_renders)
qed

theorem description_truncated_witness:
  \<open>createJobCardHTML sample_job = Inr (
     ''\<newline>        <div class="job-card">\<newline>            \<newline>            '' @
     ''<span class="job-status-tag status-active">ACTIVE</span>'' @
     ''\<newline>            \<newline>            <h3 title="Clerk">Clerk</h3>\<newline>'' @
     ''            <span class="company">Acme</span>\<newline>'' @
     ''            <div class="meta">\<newline>'' @
     ''                <span><i class="fas fa-keyboard"></i> Data Entry</span>\<newline>'' @
     ''                <span><i class="fas fa-map-marker-alt"></i> Pilibhit</span>\<newline>'' @
     ''                <span><i class="fas fa-money-bill-wave"></i> Competitive</span>\<newline>'' @
     ''            </div>\<newline>            '' @
     ''<p>'' @ ''Typing'' @ ''...</p>'' @
     ''\<newline>            \<newline>            '' @
     ''<a href="https://example.org/apply" target="_blank" class="apply-btn">'' @
     ''Apply Now <i class="fas fa-arrow-right"></i></a>'' @
     ''\<newline>\<newline>        </div>\<newline>    '') \<and>
   length (replicate 120 CHR ''x'') = 120 \<and>
   createJobCardHTML (set_prop ''description'' (Str (replicate 120 CHR ''x'')) sample_job) = Inr (
     ''\<newline>        <div class="job-card">\<newline>            \<newline>            '' @
     ''<span class="job-status-tag status-active">ACTIVE</span>'' @
     ''\<newline>            \<newline>            <h3 title="Clerk">Clerk</h3>\<newline>'' @
     ''            <span class="company">Acme</span>\<newline>'' @
     ''            <div class="meta">\<newline>'' @
     ''                <span><i class="fas fa-keyboard"></i> Data Entry</span>\<newline>'' @
     ''                <span><i class="fas fa-map-marker-alt"></i> Pilibhit</span>\<newline>'' @
     ''                <span><i class="fas fa-money-bill-wave"></i> Competitive</span>\<newline>'' @
     ''            </div>\<newline>            '' @
     ''<p>'' @ replicate 100 CHR ''x'' @ ''...</p>'' @
     ''\<newline>            \<newline>            '' @
     ''<a href="https://example.org/apply" target="_blank" class="apply-btn">'' @
     ''Apply Now <i class="fas fa-arrow-right"></i></a>'' @
     ''\<newline>\<newline>        </div>\<newline>    '')\<close>
proof -
  let ?long = "set_prop ''description'' (Str (replicate 120 CHR ''x'')) sample_job"
  have long: "get_prop ?long ''type'' = Str ''Data Entry''"
    "get_prop ?long ''description'' = Str (replicate 120 CHR ''x'')"
    "icon_of ?long = icon_of sample_job"
    "card_details ?long = card_details sample_job"
    "jobStatus_of ?long = ''Active''"
    "to_string (get_prop ?long ''applyLink'') = ''https://example.org/apply''"
    by (simp_all add: get_prop_set_prop sample_job_props icon_of_def card_details_def
        salary_text_def jobStatus_of_def truthy_def fun_eq_iff)
      (simp add: sample_job_def get_prop_def to_string_def)
  have short: "jobStatus_of sample_job = ''Active''"
    "to_string (get_prop sample_job ''applyLink'') = ''https://example.org/apply''"
    by (simp_all add: jobStatus_of_falsy sample_job_props)
      (simp add: sample_job_def get_prop_def to_string_def)
  from description_truncated [of sample_job "''Data Entry''" "''Typing''" "[]"] sample_job_props(1,2)
  obtain icon pre post where i: "icon_of sample_job = Inr icon" and
    c: \<open>pre = ''\<newline>        <div class="job-card">\<newline>            \<newline>            '' @
      ''<span class="job-status-tag '' @ badgeClass_of (jobStatus_of sample_job) @ ''">'' @
      toUpperCase (jobStatus_of sample_job) @ ''</span>'' @
      card_details sample_job icon\<close>
    \<open>post = ''\<newline>            \<newline>            '' @
      applyButtonHTML sample_job (jobStatus_of sample_job) @
      ''\<newline>\<newline>        </div>\<newline>    ''\<close>
    "length ''Typing'' \<le> 100 \<longrightarrow>
      createJobCardHTML sample_job = Inr (pre @ ''<p>'' @ ''Typing'' @ ''...</p>'' @ post)"
    by blast
  from i have "icon = ''fas fa-keyboard''"
    by (simp add: sample_job_props)
  with c have a: \<open>createJobCardHTML sample_job = Inr (
     ''\<newline>        <div class="job-card">\<newline>            \<newline>            '' @
     ''<span class="job-status-tag status-active">ACTIVE</span>'' @
     ''\<newline>            \<newline>            <h3 title="Clerk">Clerk</h3>\<newline>'' @
     ''            <span class="company">Acme</span>\<newline>'' @
     ''            <div class="meta">\<newline>'' @
     ''                <span><i class="fas fa-keyboard"></i> Data Entry</span>\<newline>'' @
     ''                <span><i class="fas fa-map-marker-alt"></i> Pilibhit</span>\<newline>'' @
     ''                <span><i class="fas fa-money-bill-wave"></i> Competitive</span>\<newline>'' @
     ''            </div>\<newline>            '' @
     ''<p>'' @ ''Typing'' @ ''...</p>'' @
     ''\<newline>            \<newline>            '' @
     ''<a href="https://example.org/apply" target="_blank" class="apply-btn">'' @
     ''Apply Now <i class="fas fa-arrow-right"></i></a>'' @
     ''\<newline>\<newline>        </div>\<newline>    '')\<close>
    by (simp add: sample_job_props short active_controls)
  from description_truncated [of ?long "''Data Entry''" "replicate 120 CHR ''x''" "[]"] long(1,2)
  obtain icon pre post where i: "icon_of ?long = Inr icon" and
    c: \<open>pre = ''\<newline>        <div class="job-card">\<newline>            \<newline>            '' @
      ''<span class="job-status-tag '' @ badgeClass_of (jobStatus_of ?long) @ ''">'' @
      toUpperCase (jobStatus_of ?long) @ ''</span>'' @
      card_details ?long icon\<close>
    \<open>post = ''\<newline>            \<newline>            '' @
      applyButtonHTML ?long (jobStatus_of ?long) @
      ''\<newline>\<newline>        </div>\<newline>    ''\<close>
    "createJobCardHTML ?long =
      Inr (pre @ ''<p>'' @ take 100 (replicate 120 CHR ''x'') @ ''...</p>'' @ post)"
    by blast
  from i have "icon = ''fas fa-keyboard''"
    by (simp add: long(3) sample_job_props)
  with c have b: \<open>createJobCardHTML ?long = Inr (
     ''\<newline>        <div class="job-card">\<newline>            \<newline>            '' @
     ''<span class="job-status-tag status-active">ACTIVE</span>'' @
     ''\<newline>            \<newline>            <h3 title="Clerk">Clerk</h3>\<newline>'' @
     ''            <span class="company">Acme</span>\<newline>'' @
     ''            <div class="meta">\<newline>'' @
     ''                <span><i class="fas fa-keyboard"></i> Data Entry</span>\<newline>'' @
     ''                <span><i class="fas fa-map-marker-alt"></i> Pilibhit</span>\<newline>'' @
     ''                <span><i class="fas fa-money-bill-wave"></i> Competitive</span>\<newline>'' @
     ''            </div>\<newline>            '' @
     ''<p>'' @ replicate 100 CHR ''x'' @ ''...</p>'' @
     ''\<newline>            \<newline>            '' @
     ''<a href="https://example.org/apply" target="_blank" class="apply-btn">'' @
     ''Apply Now <i class="fas fa-arrow-right"></i></a>'' @
     ''\<newline>\<newline>        </div>\<newline>    '')\<close>
    by (simp add: long(4,5,6) sample_job_props active_controls)
  from a b show ?thesis
    by simp
qed

text \<open>
  Claim C10. A record whose \<^verbatim>\<open>status\<close> is the empty string is rendered as the same record
  without a \<^verbatim>\<open>status\<close>: both take the default "Active", and when the record has
  \<^verbatim>\<open>type\<close> and \<^verbatim>\<open>description\<close> both are rendered as the same card, with the badge of
  class \<^verbatim>\<open>status-active\<close> and the link to \<^verbatim>\<open>applyLink\<close> as the apply control.
\<close>
theorem empty_status_as_absent:
  assumes "get_prop job ''status'' = Str []" and "get_prop job' ''status'' = Undefined"
    and "\<And>key. key \<noteq> ''status'' \<Longrightarrow> get_prop job key = get_prop job' key"
  shows \<open>createJobCardHTML job = createJobCardHTML job' \<and>
    jobStatus_of job = ''Active'' \<and>
    badgeClass_of (jobStatus_of job) = ''status-active'' \<and>
    applyButtonHTML job (jobStatus_of job) =
      ''<a href="'' @ to_string (get_prop job ''applyLink'') @
      ''" target="_blank" class="apply-btn">Apply Now <i class="fas fa-arrow-right"></i></a>'' \<and>
    (get_prop job ''type'' = Str t \<and> get_prop job ''description'' = Str d \<longrightarrow>
       (\<exists>icon. icon_of job = Inr icon \<and>
          createJobCardHTML job = Inr (
           ''\<newline>        <div class="job-card">\<newline>            \<newline>            '' @
           ''<span class="job-status-tag status-active">ACTIVE</span>'' @
           card_details job icon @
           ''<p>'' @ take 100 d @ ''...</p>'' @
           ''\<newline>            \<newline>            '' @
           ''<a href="'' @ to_string (get_prop job ''applyLink'') @
           ''" target="_blank" class="apply-btn">Apply Now <i class="fas fa-arrow-right"></i></a>'' @
           ''\<newline>\<newline>        </div>\<newline>    '') \<and>
          createJobCardHTML job' = Inr (
           ''\<newline>        <div class="job-card">\<newline>            \<newline>            '' @
           ''<span class="job-status-tag status-active">ACTIVE</span>'' @
           card_details job icon @
           ''<p>'' @ take 100 d @ ''...</p>'' @
           ''\<newline>            \<newline>            '' @
           ''<a href="'' @ to_string (get_prop job ''applyLink'') @
           ''" target="_blank" class="apply-btn">Apply Now <i class="fas fa-arrow-right"></i></a>'' @
           ''\<newline>\<newline>        </div>\<newline>    '')))\<close>
proof -
  have st: "jobStatus_of job = ''Active''" "jobStatus_of job' = ''Active''"
    using assms(1,2) by (simp_all add: jobStatus_of_falsy)
  with assms(3) have same: "createJobCardHTML job = createJobCardHTML job'"
    by (intro createJobCardHTML_cong) simp_all
  have \<open>\<exists>icon. icon_of job = Inr icon \<and>
          createJobCardHTML job = Inr (
           ''\<newline>        <div class="job-card">\<newline>            \<newline>            '' @
           ''<span class="job-status-tag status-active">ACTIVE</span>'' @
           card_details job icon @
           ''<p>'' @ take 100 d @ ''...</p>'' @
           ''\<newline>            \<newline>            '' @
           ''<a href="'' @ to_string (get_prop job ''applyLink'') @
           ''" target="_blank" class="apply-btn">Apply Now <i class="fas fa-arrow-right"></i></a>'' @
           ''\<newline>\<newline>        </div>\<newline>    '') \<and>
          createJobCardHTML job' = Inr (
           ''\<newline>        <div class="job-card">\<newline>            \<newline>            '' @
           ''<span class="job-status-tag status-active">ACTIVE</span>'' @
           card_details job icon @
           ''<p>'' @ take 100 d @ ''...</p>'' @
           ''\<newline>            \<newline>            '' @
           ''<a href="'' @ to_string (get_prop job ''applyLink'') @
           ''" target="_blank" class="apply-btn">Apply Now <i class="fas fa-arrow-right"></i></a>'' @
           ''\<newline>\<newline>        </div>\<newline>    '')\<close>
    if "get_prop job ''type'' = Str t" "get_prop job ''description'' = Str d"
    using createJobCardHTML_open_card [OF that] assms(1) unfolding same [symmetric] by simp
  with st same show ?thesis
    by (simp add: active_controls)
qed

theorem empty_status_as_absent_witness:
  \<open>get_prop (set_prop ''status'' (Str []) sample_job) ''status'' = Str [] \<and>
   get_prop sample_job ''status'' = Undefined \<and>
   createJobCardHTML (set_prop ''status'' (Str []) sample_job) = createJobCardHTML sample_job \<and>
   createJobCardHTML (set_prop ''status'' (Str []) sample_job) = Inr (
     ''\<newline>        <div class="job-card">\<newline>            \<newline>            '' @
     ''<span class="job-status-tag status-active">ACTIVE</span>'' @
     ''\<newline>            \<newline>            <h3 title="Clerk">Clerk</h3>\<newline>'' @
     ''            <span class="company">Acme</span>\<newline>'' @
     ''            <div class="meta">\<newline>'' @
     ''                <span><i class="fas fa-keyboard"></i> Data Entry</span>\<newline>'' @
     ''                <span><i class="fas fa-map-marker-alt"></i> Pilibhit</span>\<newline>'' @
     ''                <span><i class="fas fa-money-bill-wave"></i> Competitive</span>\<newline>'' @
     ''            </div>\<newline>            '' @
     ''<p>'' @ ''Typing'' @ ''...</p>'' @
     ''\<newline>            \<newline>            '' @
     ''<a href="https://example.org/apply" target="_blank" class="apply-btn">'' @
     ''Apply Now <i class="fas fa-arrow-right"></i></a>'' @
     ''\<newline>\<newline>        </div>\<newline>    '')\<close>
proof -
  let ?job = "set_prop ''status'' (Str []) sample_job"
  have a: "get_prop ?job ''status'' = Str []"
    by (simp add: get_prop_set_prop)
  have b: "get_prop ?job key = get_prop sample_job key" if "key \<noteq> ''status''" for key
    using that by (simp add: get_prop_set_prop)
  have td: "get_prop ?job ''type'' = Str ''Data Entry''" "get_prop ?job ''description'' = Str ''Typing''"
    and icon: "icon_of ?job = icon_of sample_job"
    and details: "card_details ?job = card_details sample_job"
    and link: "to_string (get_prop ?job ''applyLink'') = ''https://example.org/apply''"
    by (simp_all add: get_prop_set_prop sample_job_props icon_of_def card_details_def
        salary_text_def fun_eq_iff)
      (simp add: sample_job_def get_prop_def to_string_def)
  from empty_status_as_absent [OF a sample_job_props(3) b, of "''Data Entry''" "''Typing''"] td
  obtain icon where i: "icon_of ?job = Inr icon" and
    same: "createJobCardHTML ?job = createJobCardHTML sample_job" and
    c: \<open>createJobCardHTML ?job = Inr (
      ''\<newline>        <div class="job-card">\<newline>            \<newline>            '' @
      ''<span class="job-status-tag status-active">ACTIVE</span>'' @
      card_details ?job icon @
      ''<p>'' @ take 100 ''Typing'' @ ''...</p>'' @
      ''\<newline>            \<newline>            '' @
      ''<a href="'' @ to_string (get_prop ?job ''applyLink'') @
      ''" target="_blank" class="apply-btn">Apply Now <i class="fas fa-arrow-right"></i></a>'' @
      ''\<newline>\<newline>        </div>\<newline>    '')\<close>
    by blast
  from i have "icon = ''fas fa-keyboard''"
    by (simp add: icon sample_job_props)
  with c have \<open>createJobCardHTML ?job = Inr (
     ''\<newline>        <div class="job-card">\<newline>            \<newline>            '' @
     ''<span class="job-status-tag status-active">ACTIVE</span>'' @
     ''\<newline>            \<newline>            <h3 title="Clerk">Clerk</h3>\<newline>'' @
     ''            <span class="company">Acme</span>\<newline>'' @
     ''            <div class="meta">\<newline>'' @
     ''                <span><i class="fas fa-keyboard"></i> Data Entry</span>\<newline>'' @
     ''                <span><i class="fas fa-map-marker-alt"></i> Pilibhit</span>\<newline>'' @
     ''                <span><i class="fas fa-money-bill-wave"></i> Competitive</span>\<newline>'' @
     ''            </div>\<newline>            '' @
     ''<p>'' @ ''Typing'' @ ''...</p>'' @
     ''\<newline>            \<newline>            '' @
     ''<a href="https://example.org/apply" target="_blank" class="apply-btn">'' @
     ''Apply Now <i class="fas fa-arrow-right"></i></a>'' @
     ''\<newline>\<newline>        </div>\<newline>    '')\<close>
    unfolding details link by (simp add: sample_job_props)
  with a same sample_job_props(3) show ?thesis
    by simp
qed

end
